theory Spec2Isabelle
  imports Complex_Main
begin

section \<open>JavaScript numbers\<close>

text \<open>
  The program computes with JavaScript numbers. A number is modelled as an exact rational,
  or one of the three special values the program can produce and test for:
  \<open>NaN\<close> (from \<open>parseFloat\<close> on text that starts with no number, from \<open>0 / 0\<close>),
  and the two infinities (from \<open>x / 0\<close>). The rounding of IEEE doubles and the sign of zero
  are not modelled: every operation is exact, and \<open>x / 0\<close> is \<open>x / +0\<close>.
\<close>

datatype jsnum = NaN | Fin rat | PosInf | NegInf

fun isNaN :: "jsnum \<Rightarrow> bool" where
  "isNaN NaN = True"
| "isNaN _ = False"

text \<open>\<open>a <= b\<close>: false as soon as one side is \<open>NaN\<close>.\<close>

fun js_le :: "jsnum \<Rightarrow> jsnum \<Rightarrow> bool" where
  "js_le NaN _ = False"
| "js_le _ NaN = False"
| "js_le (Fin a) (Fin b) = (a \<le> b)"
| "js_le NegInf _ = True"
| "js_le _ PosInf = True"
| "js_le PosInf _ = False"
| "js_le _ NegInf = False"

text \<open>\<open>a > b\<close>, as in \<open>pct > 50\<close>.\<close>

fun js_gt :: "jsnum \<Rightarrow> jsnum \<Rightarrow> bool" where
  "js_gt NaN _ = False"
| "js_gt _ NaN = False"
| "js_gt (Fin a) (Fin b) = (a > b)"
| "js_gt PosInf PosInf = False"
| "js_gt PosInf _ = True"
| "js_gt _ PosInf = False"
| "js_gt NegInf _ = False"
| "js_gt _ NegInf = True"

fun js_add :: "jsnum \<Rightarrow> jsnum \<Rightarrow> jsnum" where
  "js_add NaN _ = NaN"
| "js_add _ NaN = NaN"
| "js_add (Fin a) (Fin b) = Fin (a + b)"
| "js_add PosInf NegInf = NaN"
| "js_add NegInf PosInf = NaN"
| "js_add PosInf _ = PosInf"
| "js_add _ PosInf = PosInf"
| "js_add NegInf _ = NegInf"
| "js_add _ NegInf = NegInf"

fun js_neg :: "jsnum \<Rightarrow> jsnum" where
  "js_neg NaN = NaN"
| "js_neg (Fin a) = Fin (- a)"
| "js_neg PosInf = NegInf"
| "js_neg NegInf = PosInf"

definition js_sub :: "jsnum \<Rightarrow> jsnum \<Rightarrow> jsnum" where
  "js_sub a b = js_add a (js_neg b)"

text \<open>The sign of a number that is not \<open>NaN\<close>: \<open>-1\<close>, \<open>0\<close> or \<open>1\<close>.\<close>

fun js_sgn :: "jsnum \<Rightarrow> int" where
  "js_sgn NaN = 0"
| "js_sgn (Fin a) = (if a < 0 then - 1 else if a = 0 then 0 else 1)"
| "js_sgn PosInf = 1"
| "js_sgn NegInf = - 1"

definition inf_of_sign :: "int \<Rightarrow> jsnum" where
  "inf_of_sign s = (if s = 0 then NaN else if s < 0 then NegInf else PosInf)"

fun js_mul :: "jsnum \<Rightarrow> jsnum \<Rightarrow> jsnum" where
  "js_mul NaN _ = NaN"
| "js_mul _ NaN = NaN"
| "js_mul (Fin a) (Fin b) = Fin (a * b)"
| "js_mul a b = inf_of_sign (js_sgn a * js_sgn b)"

text \<open>
  Division: a finite number over zero is an infinity of the dividend's sign, and \<open>0 / 0\<close>,
  \<open>Infinity / Infinity\<close> are \<open>NaN\<close>.
\<close>

fun js_div :: "jsnum \<Rightarrow> jsnum \<Rightarrow> jsnum" where
  "js_div NaN _ = NaN"
| "js_div _ NaN = NaN"
| "js_div (Fin a) (Fin b) = (if b = 0 then inf_of_sign (js_sgn (Fin a)) else Fin (a / b))"
| "js_div (Fin a) _ = Fin 0"
| "js_div a (Fin b) = inf_of_sign (js_sgn a * (if b < 0 then - 1 else 1))"
| "js_div _ _ = NaN"

text \<open>Truncation towards zero, for the remainder.\<close>

definition trunc_rat :: "rat \<Rightarrow> int" where
  "trunc_rat a = (if a < 0 then \<lceil>a\<rceil> else \<lfloor>a\<rfloor>)"

text \<open>\<open>a % b\<close>: the remainder has the sign of the dividend.\<close>

fun js_mod :: "jsnum \<Rightarrow> jsnum \<Rightarrow> jsnum" where
  "js_mod NaN _ = NaN"
| "js_mod _ NaN = NaN"
| "js_mod (Fin a) (Fin b) = (if b = 0 then NaN else Fin (a - b * of_int (trunc_rat (a / b))))"
| "js_mod (Fin a) _ = Fin a"
| "js_mod _ _ = NaN"

text \<open>\<open>Math.floor\<close>.\<close>

fun js_floor :: "jsnum \<Rightarrow> jsnum" where
  "js_floor (Fin a) = Fin (of_int \<lfloor>a\<rfloor>)"
| "js_floor x = x"

text \<open>\<open>x || 0\<close> on a number: \<open>NaN\<close> and \<open>0\<close> are falsy.\<close>

fun js_truthy :: "jsnum \<Rightarrow> bool" where
  "js_truthy NaN = False"
| "js_truthy (Fin a) = (a \<noteq> 0)"
| "js_truthy _ = True"

definition js_or0 :: "jsnum \<Rightarrow> jsnum" where
  "js_or0 x = (if js_truthy x then x else Fin 0)"

section \<open>Strings and the built-ins the program calls\<close>

definition isDigit :: "char \<Rightarrow> bool" where
  "isDigit c = (c \<in> set ''0123456789'')"

definition digitVal :: "char \<Rightarrow> nat" where
  "digitVal c = of_char c - 48"

text \<open>The value of a run of decimal digits, most significant first.\<close>

definition digitsVal :: "string \<Rightarrow> nat" where
  "digitsVal ds = foldl (\<lambda>acc c. 10 * acc + digitVal c) 0 ds"

text \<open>White space that \<open>parseFloat\<close> skips at the start (the ASCII part of it).\<close>

definition isWhiteSpace :: "char \<Rightarrow> bool" where
  "isWhiteSpace c = (of_char c \<in> {9, 10, 11, 12, 13, 32 :: nat})"

text \<open>
  The exponent part after the mantissa: \<open>e\<close> or \<open>E\<close>, an optional sign and at least one
  digit; anything else is not part of the number and counts as no exponent.
\<close>

definition signedDigits :: "string \<Rightarrow> int" where
  "signedDigits r =
     (case r of
        c # d \<Rightarrow>
          if c = CHR ''+'' then int (digitsVal (takeWhile isDigit d))
          else if c = CHR ''-'' then - int (digitsVal (takeWhile isDigit d))
          else int (digitsVal (takeWhile isDigit r))
      | [] \<Rightarrow> 0)"

definition hasExponent :: "string \<Rightarrow> bool" where
  "hasExponent r =
     (case r of
        e # c # d \<Rightarrow>
          (e = CHR ''e'' \<or> e = CHR ''E'') \<and>
          (isDigit c \<or> ((c = CHR ''+'' \<or> c = CHR ''-'') \<and> (case d of [] \<Rightarrow> False | x # _ \<Rightarrow> isDigit x)))
      | _ \<Rightarrow> False)"

definition exponentPart :: "string \<Rightarrow> int" where
  "exponentPart r = (if hasExponent r then signedDigits (tl r) else 0)"

definition pow10 :: "int \<Rightarrow> rat" where
  "pow10 e = (if 0 \<le> e then 10 ^ nat e else 1 / 10 ^ nat (- e))"

text \<open>
  An unsigned decimal literal at the start of the text: \<open>Infinity\<close>, or digits with an
  optional fraction and exponent; at least one digit before or after the point.
\<close>

definition unsignedLiteral :: "string \<Rightarrow> jsnum" where
  "unsignedLiteral u =
     (if take 8 u = ''Infinity'' then PosInf
      else
        let ip = takeWhile isDigit u;
            r1 = dropWhile isDigit u;
            fp = (case r1 of c # r \<Rightarrow> if c = CHR ''.'' then takeWhile isDigit r else [] | [] \<Rightarrow> []);
            r2 = (case r1 of c # r \<Rightarrow> if c = CHR ''.'' then dropWhile isDigit r else r1 | [] \<Rightarrow> [])
        in if ip = [] \<and> fp = [] then NaN
           else Fin ((of_nat (digitsVal ip) + of_nat (digitsVal fp) / 10 ^ length fp)
                     * pow10 (exponentPart r2)))"

text \<open>
  \<open>parseFloat\<close>: skip leading white space, read an optional sign, then the longest prefix
  that is a decimal literal; \<open>NaN\<close> when there is none. Text after the literal is ignored.
\<close>

definition parseFloat :: "string \<Rightarrow> jsnum" where
  "parseFloat s =
     (case dropWhile isWhiteSpace s of
        [] \<Rightarrow> NaN
      | c # r \<Rightarrow>
          if c = CHR ''+'' then unsignedLiteral r
          else if c = CHR ''-'' then js_neg (unsignedLiteral r)
          else unsignedLiteral (c # r))"

text \<open>\<open>s.split(':')\<close>: the pieces between the colons, always at least one.\<close>

fun split_colon :: "string \<Rightarrow> string list" where
  "split_colon [] = [[]]"
| "split_colon (c # cs) =
     (if c = CHR '':'' then [] # split_colon cs
      else (case split_colon cs of p # ps \<Rightarrow> (c # p) # ps | [] \<Rightarrow> [[c]]))"

text \<open>\<open>s.includes(':')\<close>.\<close>

definition includes_colon :: "string \<Rightarrow> bool" where
  "includes_colon s = (CHR '':'' \<in> set s)"

text \<open>
  Reading \<open>a[i]\<close> of a number array inside arithmetic: past the end it is \<open>undefined\<close>,
  which arithmetic turns into \<open>NaN\<close>.
\<close>

definition at_num :: "jsnum list \<Rightarrow> nat \<Rightarrow> jsnum" where
  "at_num xs i = (if i < length xs then xs ! i else NaN)"

section \<open>utils: timeToSecs\<close>

text \<open>A timecode as the program receives it: \<open>string | number\<close>.\<close>

datatype timeval = TStr string | TNum jsnum

definition timeToSecs :: "timeval \<Rightarrow> jsnum" where
  "timeToSecs timecode =
     (case timecode of
        TNum n \<Rightarrow> n
      | TStr s \<Rightarrow>
          if \<not> includes_colon s then parseFloat s
          else
            let split = map parseFloat (split_colon s)
            in if list_ex isNaN split then Fin 0
               else if length split = 2
                 then js_add (js_mul (at_num split 0) (Fin 60)) (at_num split 1)
                 else js_add (js_add (js_mul (at_num split 0) (Fin 3600))
                                     (js_mul (at_num split 1) (Fin 60)))
                             (at_num split 2))"

text \<open>
  \<open>parts.join(sep)\<close>, used here to write a string as its colon-separated components and
  by \<open>generateSrt\<close> to join the blocks.
\<close>

fun join_str :: "string \<Rightarrow> string list \<Rightarrow> string" where
  "join_str sep [] = []"
| "join_str sep [a] = a"
| "join_str sep (a # b # r) = a @ sep @ join_str sep (b # r)"

section \<open>utils: formatSrtTime and generateSrt\<close>

definition digit_char :: "nat \<Rightarrow> char" where
  "digit_char d = char_of (48 + d)"

fun nat_digits :: "nat \<Rightarrow> string" where
  "nat_digits n = (if n < 10 then [digit_char n] else nat_digits (n div 10) @ [digit_char (n mod 10)])"

declare nat_digits.simps [simp del]

definition int_toString :: "int \<Rightarrow> string" where
  "int_toString i = (if i < 0 then CHR ''-'' # nat_digits (nat (- i)) else nat_digits (nat i))"

text \<open>
  \<open>Number.prototype.toString\<close> on the numbers the program converts, which are all results
  of \<open>Math.floor\<close>: an integral value prints as its decimal digits (JavaScript does so
  below \<open>10^21\<close>), the special values by name. No caller passes a value with a fraction.
\<close>

fun js_toString :: "jsnum \<Rightarrow> string" where
  "js_toString NaN = ''NaN''"
| "js_toString PosInf = ''Infinity''"
| "js_toString NegInf = ''-Infinity''"
| "js_toString (Fin a) = int_toString \<lfloor>a\<rfloor>"

text \<open>\<open>s.padStart(n, c)\<close> with a one-character filler.\<close>

definition padStart :: "nat \<Rightarrow> char \<Rightarrow> string \<Rightarrow> string" where
  "padStart n c s = replicate (n - length s) c @ s"

definition formatSrtTime :: "jsnum \<Rightarrow> string" where
  "formatSrtTime secs =
     (let hours = js_floor (js_div secs (Fin 3600));
          minutes = js_floor (js_div (js_mod secs (Fin 3600)) (Fin 60));
          seconds = js_floor (js_mod secs (Fin 60));
          milliseconds = js_floor (js_mul (js_sub secs (js_floor secs)) (Fin 1000))
      in padStart 2 CHR ''0'' (js_toString hours) @ '':''
         @ padStart 2 CHR ''0'' (js_toString minutes) @ '':''
         @ padStart 2 CHR ''0'' (js_toString seconds) @ '',''
         @ padStart 3 CHR ''0'' (js_toString milliseconds))"

text \<open>
  The annotation records (\<open>Timecode\<close> of types.ts, known from its uses): a time with a text,
  with a text and objects, or with a value.
\<close>

datatype timecode =
    TextTimecode timeval string
  | ObjectTimecode timeval string "string list"
  | ValueTimecode timeval jsnum

fun time_of :: "timecode \<Rightarrow> timeval" where
  "time_of (TextTimecode t _) = t"
| "time_of (ObjectTimecode t _ _) = t"
| "time_of (ValueTimecode t _) = t"

text \<open>\<open>'text' in item ? item.text : null\<close>.\<close>

fun text_of :: "timecode \<Rightarrow> string option" where
  "text_of (TextTimecode _ x) = Some x"
| "text_of (ObjectTimecode _ x _) = Some x"
| "text_of (ValueTimecode _ _) = None"

text \<open>\<open>item.text\<close> inside a template literal: a missing field prints as \<open>undefined\<close>.\<close>

definition text_str :: "timecode \<Rightarrow> string" where
  "text_str item = (case text_of item of Some x \<Rightarrow> x | None \<Rightarrow> ''undefined'')"

text \<open>
  The callback of \<open>timecodes.map((item, index) => ...)\<close>, on the pair of an index and
  its item (\<open>enumerate 0 timecodes\<close> lists these pairs). It reads \<open>timecodes[index + 1]\<close>
  only under the guard \<open>index < timecodes.length - 1\<close>, where the element exists.
\<close>

definition srt_entry :: "timecode list \<Rightarrow> jsnum \<Rightarrow> nat \<times> timecode \<Rightarrow> string" where
  "srt_entry timecodes totalDuration p =
     (case p of (index, item) \<Rightarrow>
        let startTime = timeToSecs (time_of item);
            endTime = (if int index < int (length timecodes) - 1
                       then timeToSecs (time_of (timecodes ! (index + 1)))
                       else totalDuration)
        in nat_digits (index + 1) @ [CHR 0x0A] @ formatSrtTime startTime @ '' --> ''
           @ formatSrtTime endTime @ [CHR 0x0A] @ text_str item @ [CHR 0x0A])"

definition generateSrt :: "timecode list \<Rightarrow> jsnum \<Rightarrow> string" where
  "generateSrt timecodes totalDuration =
     join_str [CHR 0x0A]
       (map (srt_entry timecodes totalDuration) (enumerate 0 timecodes))"

text \<open>
  The subtitle document as the specification words it: the record at index \<open>i\<close> gives the
  block numbered \<open>i + 1\<close>, from its own time to the next record's time, or to the total
  duration when it is the last; a blank line separates two blocks.
\<close>

definition subtitle_block :: "nat \<Rightarrow> jsnum \<Rightarrow> jsnum \<Rightarrow> string \<Rightarrow> string" where
  "subtitle_block n start fin txt =
     nat_digits n @ [CHR 0x0A] @ formatSrtTime start @ '' --> '' @ formatSrtTime fin
     @ [CHR 0x0A] @ txt @ [CHR 0x0A]"

fun toSubtitleDocument :: "nat \<Rightarrow> timecode list \<Rightarrow> jsnum \<Rightarrow> string" where
  "toSubtitleDocument i [] totalDuration = []"
| "toSubtitleDocument i [r] totalDuration =
     subtitle_block (i + 1) (timeToSecs (time_of r)) totalDuration (text_str r)"
| "toSubtitleDocument i (r # r' # rs) totalDuration =
     subtitle_block (i + 1) (timeToSecs (time_of r)) (timeToSecs (time_of r')) (text_str r)
     @ [CHR 0x0A] @ toSubtitleDocument (i + 1) (r' # rs) totalDuration"

section \<open>VideoPlayer\<close>

text \<open>The media element behind \<open>videoRef.current\<close>, by the two properties the player reads.\<close>

record video_el =
  el_currentTime :: jsnum
  el_duration :: jsnum

text \<open>The component's state, one field per \<open>useState\<close>.\<close>

record player_state =
  duration :: jsnum
  scrubberTime :: jsnum
  isPlaying :: bool
  isScrubbing :: bool
  volume :: jsnum
  isMuted :: bool
  currentCaption :: "string option"

definition currentSecs :: "player_state \<Rightarrow> jsnum" where
  "currentSecs st = js_or0 (js_mul (duration st) (scrubberTime st))"

definition currentPercent :: "player_state \<Rightarrow> jsnum" where
  "currentPercent st = js_mul (scrubberTime st) (Fin 100)"

text \<open>The caption is rendered by \<open>currentCaption && ...\<close>: an empty text shows nothing.\<close>

definition displayedCaption :: "player_state \<Rightarrow> string option" where
  "displayedCaption st =
     (case currentCaption st of None \<Rightarrow> None | Some x \<Rightarrow> if x = [] then None else Some x)"

definition updateDuration :: "video_el option \<Rightarrow> player_state \<Rightarrow> player_state" where
  "updateDuration videoRef st =
     (let newDuration = (case videoRef of None \<Rightarrow> Fin 0 | Some v \<Rightarrow> js_or0 (el_duration v))
      in st\<lparr>duration := newDuration\<rparr>)"

datatype error = TypeError

text \<open>
  The \<open>while (low <= high)\<close> loop of \<open>updateTime\<close>. Reading \<open>timecodeList[mid].time\<close> outside
  the list would throw.
\<close>

function caption_search :: "timecode list \<Rightarrow> jsnum \<Rightarrow> int \<Rightarrow> int \<Rightarrow> int \<Rightarrow> error + int" where
  "caption_search timecodeList currentTime low high bestIndex =
     (if low \<le> high then
        (if 0 \<le> (low + high) div 2 \<and> (low + high) div 2 < int (length timecodeList) then
           (if js_le (timeToSecs (time_of (timecodeList ! nat ((low + high) div 2)))) currentTime
            then caption_search timecodeList currentTime ((low + high) div 2 + 1) high
                   ((low + high) div 2)
            else caption_search timecodeList currentTime low ((low + high) div 2 - 1) bestIndex)
         else Inl TypeError)
      else Inr bestIndex)"
  by pat_completeness auto
termination
  by (relation "measure (\<lambda>(tcl, ct, low, high, best). nat (high - low + 1))") auto

declare caption_search.simps [simp del]

text \<open>The search as \<open>updateTime\<close> starts it.\<close>

definition bestIndexAt :: "timecode list \<Rightarrow> jsnum \<Rightarrow> error + int" where
  "bestIndexAt timecodeList currentTime =
     caption_search timecodeList currentTime 0 (int (length timecodeList) - 1) (- 1)"

definition updateTime ::
  "timecode list option \<Rightarrow> video_el option \<Rightarrow> player_state \<Rightarrow> error + player_state" where
  "updateTime timecodeList videoRef st =
     (case videoRef of
        None \<Rightarrow> Inr st
      | Some v \<Rightarrow>
          let st1 = (if \<not> isScrubbing st
                     then st\<lparr>scrubberTime := js_or0 (js_div (el_currentTime v) (el_duration v))\<rparr>
                     else st)
          in (case timecodeList of
                None \<Rightarrow> Inr (st1\<lparr>currentCaption := None\<rparr>)
              | Some tcl \<Rightarrow>
                  if length tcl > 0 then
                    (case bestIndexAt tcl (el_currentTime v) of
                       Inl e \<Rightarrow> Inl e
                     | Inr bestIndex \<Rightarrow>
                         let newCaption = (if bestIndex \<noteq> - 1 then text_of (tcl ! nat bestIndex)
                                           else None)
                         in Inr (st1\<lparr>currentCaption := newCaption\<rparr>))
                  else Inr (st1\<lparr>currentCaption := None\<rparr>)))"

text \<open>
  A run of native time-update events: each one calls \<open>updateTime\<close> with the media element
  as it is at that moment.
\<close>

fun positionTicks ::
  "timecode list option \<Rightarrow> video_el option list \<Rightarrow> player_state \<Rightarrow> error + player_state" where
  "positionTicks timecodeList [] st = Inr st"
| "positionTicks timecodeList (v # vs) st =
     (case updateTime timecodeList v st of
        Inl e \<Rightarrow> Inl e
      | Inr st' \<Rightarrow> positionTicks timecodeList vs st')"

text \<open>The linear scan of the specification: the last index whose time is at most \<open>p\<close>.\<close>

fun linear_scan :: "timecode list \<Rightarrow> jsnum \<Rightarrow> nat \<Rightarrow> int \<Rightarrow> int" where
  "linear_scan [] p i best = best"
| "linear_scan (r # rs) p i best =
     linear_scan rs p (i + 1) (if js_le (timeToSecs (time_of r)) p then int i else best)"

definition sorted_by_time :: "timecode list \<Rightarrow> bool" where
  "sorted_by_time tcl =
     sorted_wrt (\<lambda>a b. js_le (timeToSecs (time_of a)) (timeToSecs (time_of b))) tcl"

text \<open>\<open>useEffect(..., [url])\<close>.\<close>

definition urlEffect :: "player_state \<Rightarrow> player_state" where
  "urlEffect st = st\<lparr>scrubberTime := Fin 0, isPlaying := False, currentCaption := None\<rparr>"

text \<open>
  Assigning to \<open>currentTime\<close> of the media element. \<open>videoRef\<close> holds an
  \<open>HTMLVideoElement\<close>, so the assignment runs the setter the HTML Standard defines: the
  attribute is a \<open>double\<close>, and \<open>NaN\<close> and the infinities throw \<open>TypeError\<close>; while no
  media data is loaded (the duration reads \<open>NaN\<close>) the value is kept as the default playback
  start position, which \<open>currentTime\<close> then returns; otherwise the element seeks, and the
  seek replaces a position later than the end of the media by the end and a position before
  its start by the start. The media is taken to start at 0 and to be seekable throughout,
  as a local file played from an object URL is.
\<close>

definition set_currentTime :: "jsnum \<Rightarrow> video_el \<Rightarrow> error + video_el" where
  "set_currentTime t v =
     (case t of
        Fin x \<Rightarrow>
          if isNaN (el_duration v) then Inr (v\<lparr>el_currentTime := t\<rparr>)
          else if js_gt t (el_duration v) then Inr (v\<lparr>el_currentTime := el_duration v\<rparr>)
          else if x < 0 then Inr (v\<lparr>el_currentTime := Fin 0\<rparr>)
          else Inr (v\<lparr>el_currentTime := t\<rparr>)
      | _ \<Rightarrow> Inl TypeError)"

text \<open>
  \<open>useEffect(..., [requestedTimecode])\<close>: the assignment to \<open>videoRef.current.currentTime\<close>
  when there is an element and a requested timecode. The player does nothing to the value
  before it assigns it.
\<close>

definition requestedTimecodeEffect ::
  "jsnum option \<Rightarrow> video_el option \<Rightarrow> error + video_el option" where
  "requestedTimecodeEffect requestedTimecode videoRef =
     (case videoRef of
        None \<Rightarrow> Inr None
      | Some v \<Rightarrow>
          (case requestedTimecode of
             None \<Rightarrow> Inr (Some v)
           | Some t \<Rightarrow>
               (case set_currentTime t v of Inl e \<Rightarrow> Inl e | Inr v' \<Rightarrow> Inr (Some v'))))"

text \<open>The scrubber's handlers.\<close>

definition onPointerDown :: "player_state \<Rightarrow> player_state" where
  "onPointerDown st = st\<lparr>isScrubbing := True\<rparr>"

definition onPointerUp :: "player_state \<Rightarrow> player_state" where
  "onPointerUp st = st\<lparr>isScrubbing := False\<rparr>"

definition onScrubberChange ::
  "jsnum \<Rightarrow> video_el option \<Rightarrow> player_state
     \<Rightarrow> player_state \<times> (error + video_el option)" where
  "onScrubberChange newScrubberTime videoRef st =
     (st\<lparr>scrubberTime := newScrubberTime\<rparr>,
      (case videoRef of
         None \<Rightarrow> Inr None
       | Some v \<Rightarrow>
           (case set_currentTime (js_mul newScrubberTime (duration st)) v of
              Inl e \<Rightarrow> Inl e
            | Inr v' \<Rightarrow> Inr (Some v'))))"

text \<open>The position of one marker: \<open>(secs / duration) * 100\<close>.\<close>

definition markerPct :: "jsnum \<Rightarrow> timecode \<Rightarrow> jsnum" where
  "markerPct dur item = js_mul (js_div (timeToSecs (time_of item)) dur) (Fin 100)"

section \<open>App: annotation requests\<close>

text \<open>
  What \<open>generateContent\<close> resolves to, by the parts \<open>onModeSelect\<close> reads: the function calls
  (an absent list reads like an empty one), each with its name and, when it has arguments,
  their \<open>timecodes\<close>; and the text.
\<close>

record function_call =
  fc_name :: "string option"
  fc_args :: "timecode list option"

record gen_response =
  functionCalls :: "function_call list"
  resp_text :: "string option"

text \<open>A settled promise: the response, or the error's message when it is an \<open>Error\<close>.\<close>

datatype gen_result = Resolved gen_response | Rejected "string option"

text \<open>
  The state of \<open>App\<close> that \<open>onModeSelect\<close> and its neighbours touch (\<open>uploadedFile\<close> is
  the state variable \<open>file\<close>).
\<close>

record app_state =
  uploadedFile :: "string option"
  latestRequestRef :: int
  activeMode :: "string option"
  isLoading :: bool
  timecodeList :: "timecode list option"
  textResponse :: "string option"
  apiError :: "string option"
  chartLabel :: string
  selectedMode :: string
  chartMode :: string
  chartPrompt :: string
  requestedTimecode :: "jsnum option"
  scrollTop :: nat

text \<open>
  A call of \<open>onModeSelect\<close> suspended at an \<open>await\<close>: its \<open>requestId\<close>, the loop counter
  \<open>i\<close>, and whether it waits for \<open>generateContent\<close> or for the back-off timer.
\<close>

datatype await_point = AwaitContent | AwaitBackoff

record pending =
  requestId :: int
  attempt :: nat
  awaiting :: await_point

definition maxRetries :: nat where
  "maxRetries = 3"

text \<open>\<open>text.replace(/\\'/g, "'")\<close>: every backslash before a quote is dropped.\<close>

fun unescape_quotes :: "string \<Rightarrow> string" where
  "unescape_quotes (a # b # r) =
     (if a = CHR 0x5C \<and> b = CHR 0x27 then CHR 0x27 # unescape_quotes r
      else a # unescape_quotes (b # r))"
| "unescape_quotes r = r"

fun sanitize :: "timecode \<Rightarrow> timecode" where
  "sanitize (TextTimecode t x) = TextTimecode t (unescape_quotes x)"
| "sanitize (ObjectTimecode t x os) = ObjectTimecode t (unescape_quotes x) os"
| "sanitize (ValueTimecode t v) = ValueTimecode t v"

definition setTimecodes :: "timecode list \<Rightarrow> app_state \<Rightarrow> app_state" where
  "setTimecodes timecodes st = st\<lparr>timecodeList := Some (map sanitize timecodes)\<rparr>"

text \<open>A string is truthy when it is there and not empty.\<close>

definition truthy_str :: "string option \<Rightarrow> bool" where
  "truthy_str x = (case x of None \<Rightarrow> False | Some y \<Rightarrow> y \<noteq> [])"

definition startsWith :: "string \<Rightarrow> string \<Rightarrow> bool" where
  "startsWith s pre = (take (length pre) s = pre)"

definition invalidResponseMessage :: string where
  "invalidResponseMessage =
     ''The model didn'' @ [CHR 0x27]
     @ ''t return a valid response after multiple attempts. Please try a different prompt.''"

text \<open>The \<open>finally\<close> block.\<close>

definition onModeSelect_finally :: "int \<Rightarrow> app_state \<Rightarrow> app_state" where
  "onModeSelect_finally rid st =
     (let st1 = (if latestRequestRef st = rid then st\<lparr>isLoading := False\<rparr> else st)
      in st1\<lparr>scrollTop := 0\<rparr>)"

text \<open>From the check after the retry loop to the end of the \<open>try\<close> block, then \<open>finally\<close>.\<close>

definition onModeSelect_apply :: "int \<Rightarrow> gen_response \<Rightarrow> app_state \<Rightarrow> app_state" where
  "onModeSelect_apply rid resp st =
     (if latestRequestRef st \<noteq> rid then onModeSelect_finally rid st
      else
        let st1 =
          (case functionCalls resp of
             [] \<Rightarrow>
               if truthy_str (resp_text resp) then st\<lparr>textResponse := resp_text resp\<rparr>
               else st\<lparr>apiError := Some invalidResponseMessage\<rparr>
           | call # _ \<Rightarrow>
               if truthy_str (fc_name call) \<and> fc_args call \<noteq> None then
                 (if startsWith (the (fc_name call)) ''set_timecodes''
                  then setTimecodes (the (fc_args call)) st
                  else st)
               else if truthy_str (resp_text resp) then st\<lparr>textResponse := resp_text resp\<rparr>
               else st\<lparr>apiError := Some invalidResponseMessage\<rparr>)
        in onModeSelect_finally rid st1)"

text \<open>
  \<open>onModeSelect\<close> up to its first \<open>await\<close>; \<open>now\<close> is what \<open>Date.now()\<close> returns. The first
  pass of the loop finds \<open>latestRequestRef.current\<close> equal to the identifier just stored.
  The prompt built for \<open>generateContent\<close> changes no state and is left out.
\<close>

definition onModeSelect :: "int \<Rightarrow> string \<Rightarrow> app_state \<Rightarrow> app_state \<times> pending option" where
  "onModeSelect now mode st =
     (if uploadedFile st = None
      then (st\<lparr>apiError := Some ''Please upload a video or audio file first.''\<rparr>, None)
      else
        let isChartMode = (selectedMode st = ''Chart'');
            isCustomChartMode = (isChartMode \<and> chartMode st = ''Custom'')
        in (st\<lparr>latestRequestRef := now,
                 activeMode := Some mode,
                 isLoading := True,
                 timecodeList := None,
                 textResponse := None,
                 apiError := None,
                 chartLabel := (if isChartMode
                                then (if isCustomChartMode then chartPrompt st else chartMode st)
                                else [])\<rparr>,
            Some \<lparr>requestId = now, attempt = 0, awaiting = AwaitContent\<rparr>))"

text \<open>
  The continuation when the awaited \<open>generateContent\<close> settles: the rest of the loop body,
  and, when the loop ends, the code after it. A rejection goes to \<open>catch\<close>.
\<close>

definition onContent :: "pending \<Rightarrow> gen_result \<Rightarrow> app_state \<Rightarrow> app_state \<times> pending option" where
  "onContent p result st =
     (case result of
        Rejected e \<Rightarrow>
          (onModeSelect_finally (requestId p)
             (if latestRequestRef st = requestId p
              then st\<lparr>apiError := Some (case e of Some m \<Rightarrow> m | None \<Rightarrow> ''An unknown error occurred.'')\<rparr>
              else st),
           None)
      | Resolved resp \<Rightarrow>
          if functionCalls resp \<noteq> [] \<or> truthy_str (resp_text resp)
          then (onModeSelect_apply (requestId p) resp st, None)
          else if int (attempt p) < int maxRetries - 1
          then (st, Some (p\<lparr>awaiting := AwaitBackoff\<rparr>))
          else (onModeSelect_apply (requestId p) resp st, None))"

text \<open>
  The continuation when the back-off timer fires: \<open>i++\<close>, and the check at the head of the
  loop before the next \<open>generateContent\<close>. The timer is only started while
  \<open>i < maxRetries - 1\<close>, so the loop condition holds after \<open>i++\<close>.
\<close>

definition onBackoff :: "pending \<Rightarrow> app_state \<Rightarrow> app_state \<times> pending option" where
  "onBackoff p st =
     (if latestRequestRef st \<noteq> requestId p
      then (onModeSelect_finally (requestId p) st, None)
      else (st, Some (p\<lparr>attempt := attempt p + 1, awaiting := AwaitContent\<rparr>)))"

text \<open>A suspended call resumes with whatever it was waiting for.\<close>

definition resume :: "pending \<Rightarrow> gen_result \<Rightarrow> app_state \<Rightarrow> app_state \<times> pending option" where
  "resume p result st =
     (case awaiting p of AwaitContent \<Rightarrow> onContent p result st | AwaitBackoff \<Rightarrow> onBackoff p st)"

definition handleCancel :: "int \<Rightarrow> app_state \<Rightarrow> app_state" where
  "handleCancel now st = st\<lparr>latestRequestRef := now, isLoading := False, apiError := None\<rparr>"

text \<open>The result state the output panel shows.\<close>

definition visibleResult ::
  "app_state \<Rightarrow> timecode list option \<times> string option \<times> string option" where
  "visibleResult st = (timecodeList st, textResponse st, apiError st)"

text \<open>
  \<open>jumpToTimecode\<close> is \<open>setRequestedTimecode\<close>; the player's effect has the dependency
  list \<open>[requestedTimecode]\<close>, so it runs after the call when the value differs from the
  one before and does not run when the value is the same. The state is set before the
  effect runs, so it is set also when the assignment in the effect throws.
\<close>

definition jumpToTimecode :: "jsnum \<Rightarrow> app_state \<Rightarrow> app_state" where
  "jumpToTimecode t st = st\<lparr>requestedTimecode := Some t\<rparr>"

definition seek ::
  "jsnum \<Rightarrow> app_state \<Rightarrow> video_el option \<Rightarrow> app_state \<times> (error + video_el option)" where
  "seek targetSeconds st videoRef =
     (let st' = jumpToTimecode targetSeconds st
      in (st',
          if requestedTimecode st' \<noteq> requestedTimecode st
          then requestedTimecodeEffect (requestedTimecode st') videoRef
          else Inr videoRef))"

text \<open>A state of \<open>App\<close> with an uploaded file and no request so far, for the examples.\<close>

definition app0 :: app_state where
  "app0 = \<lparr>uploadedFile = Some ''files/abc'', latestRequestRef = 0, activeMode = None,
           isLoading = False, timecodeList = None, textResponse = None, apiError = None,
           chartLabel = [], selectedMode = ''A/V captions'', chartMode = ''Excitement'',
           chartPrompt = [], requestedTimecode = None, scrollTop = 40\<rparr>"

text \<open>A state of the player with a duration of 10 seconds, for the examples.\<close>

definition player0 :: player_state where
  "player0 = \<lparr>duration = Fin 10, scrubberTime = Fin 1, isPlaying = False, isScrubbing = False,
              volume = Fin 1, isMuted = False, currentCaption = None\<rparr>"

section \<open>Properties of timeToSecs\<close>

lemma split_colon_not_Nil: "split_colon s \<noteq> []"
  by (induction s) (auto split: list.splits)

lemma split_colon_plain: "CHR '':'' \<notin> set a \<Longrightarrow> split_colon a = [a]"
  by (induction a) auto

lemma split_colon_append:
  "CHR '':'' \<notin> set a \<Longrightarrow> split_colon (a @ CHR '':'' # r) = a # split_colon r"
  by (induction a) auto

lemma split_join_colon:
  "cs \<noteq> [] \<Longrightarrow> \<forall>c\<in>set cs. CHR '':'' \<notin> set c \<Longrightarrow> split_colon (join_str '':'' cs) = cs"
  by (induction "'':''" cs rule: join_str.induct)
     (auto simp: split_colon_plain split_colon_append)

lemma includes_join_colon: "2 \<le> length cs \<Longrightarrow> includes_colon (join_str '':'' cs)"
  by (induction "'':''" cs rule: join_str.induct) (auto simp: includes_colon_def)

text \<open>
  On the components of a colon-separated string, \<open>timeToSecs\<close> is the source's last three
  statements applied to the parsed components.
\<close>

lemma timeToSecs_join:
  assumes "2 \<le> length cs" and "\<forall>c\<in>set cs. CHR '':'' \<notin> set c"
  shows "timeToSecs (TStr (join_str '':'' cs)) =
     (let split = map parseFloat cs
      in if list_ex isNaN split then Fin 0
         else if length split = 2
           then js_add (js_mul (at_num split 0) (Fin 60)) (at_num split 1)
           else js_add (js_add (js_mul (at_num split 0) (Fin 3600))
                               (js_mul (at_num split 1) (Fin 60)))
                       (at_num split 2))"
proof -
  from assms(1) have ne: "cs \<noteq> []" by auto
  show ?thesis
    using includes_join_colon [OF assms(1)] split_join_colon [OF ne assms(2)]
    by (simp add: timeToSecs_def)
qed

lemma list_ex_isNaN_map:
  "list_ex isNaN (map parseFloat cs) = (\<exists>c\<in>set cs. isNaN (parseFloat c))"
  by (simp add: list_ex_iff)

text \<open>
  Claim C6. \<open>timeToSecs\<close> computes the reference arithmetic: a number is returned as it is;
  a string of two colon-separated numeric components \<open>m\<close> and \<open>s\<close> gives \<open>m * 60 + s\<close>;
  one of three numeric components \<open>h\<close>, \<open>m\<close>, \<open>s\<close> gives \<open>h * 3600 + m * 60 + s\<close>; a string
  without a colon gives what \<open>parseFloat\<close> reads from it; and \<open>"01:02:03"\<close>, \<open>"02:03"\<close>,
  \<open>"45"\<close> and the number \<open>90\<close> give 3723, 123, 45 and 90. A component is numeric when
  \<open>parseFloat\<close> does not return \<open>NaN\<close> on it; the arithmetic is JavaScript's, which on
  finite numbers is the exact sum and product.
\<close>

theorem timeToSecs_reference:
  "timeToSecs (TNum n) = n
   \<and> (CHR '':'' \<notin> set a \<and> CHR '':'' \<notin> set b
        \<and> \<not> isNaN (parseFloat a) \<and> \<not> isNaN (parseFloat b)
      \<longrightarrow> timeToSecs (TStr (a @ '':'' @ b))
          = js_add (js_mul (parseFloat a) (Fin 60)) (parseFloat b))
   \<and> (CHR '':'' \<notin> set a \<and> CHR '':'' \<notin> set b \<and> CHR '':'' \<notin> set c
        \<and> \<not> isNaN (parseFloat a) \<and> \<not> isNaN (parseFloat b) \<and> \<not> isNaN (parseFloat c)
      \<longrightarrow> timeToSecs (TStr (a @ '':'' @ b @ '':'' @ c))
          = js_add (js_add (js_mul (parseFloat a) (Fin 3600)) (js_mul (parseFloat b) (Fin 60)))
                   (parseFloat c))
   \<and> (CHR '':'' \<notin> set a \<and> CHR '':'' \<notin> set b
        \<and> parseFloat a = Fin m \<and> parseFloat b = Fin x
      \<longrightarrow> timeToSecs (TStr (a @ '':'' @ b)) = Fin (m * 60 + x))
   \<and> (CHR '':'' \<notin> set a \<and> CHR '':'' \<notin> set b \<and> CHR '':'' \<notin> set c
        \<and> parseFloat a = Fin h \<and> parseFloat b = Fin m \<and> parseFloat c = Fin x
      \<longrightarrow> timeToSecs (TStr (a @ '':'' @ b @ '':'' @ c)) = Fin (h * 3600 + m * 60 + x))
   \<and> (CHR '':'' \<notin> set s \<longrightarrow> timeToSecs (TStr s) = parseFloat s)
   \<and> timeToSecs (TStr ''01:02:03'') = Fin 3723
   \<and> timeToSecs (TStr ''02:03'') = Fin 123
   \<and> timeToSecs (TStr ''45'') = Fin 45
   \<and> timeToSecs (TNum (Fin 90)) = Fin 90"
proof -
  have two: "timeToSecs (TStr (a @ '':'' @ b))
             = js_add (js_mul (parseFloat a) (Fin 60)) (parseFloat b)"
    if "CHR '':'' \<notin> set a" "CHR '':'' \<notin> set b"
       "\<not> isNaN (parseFloat a)" "\<not> isNaN (parseFloat b)" for a b
  proof -
    have "timeToSecs (TStr (join_str '':'' [a, b]))
          = js_add (js_mul (parseFloat a) (Fin 60)) (parseFloat b)"
      using that by (subst timeToSecs_join) (simp_all add: at_num_def)
    then show ?thesis by simp
  qed
  have three: "timeToSecs (TStr (a @ '':'' @ b @ '':'' @ c))
               = js_add (js_add (js_mul (parseFloat a) (Fin 3600)) (js_mul (parseFloat b) (Fin 60)))
                        (parseFloat c)"
    if "CHR '':'' \<notin> set a" "CHR '':'' \<notin> set b" "CHR '':'' \<notin> set c"
       "\<not> isNaN (parseFloat a)" "\<not> isNaN (parseFloat b)" "\<not> isNaN (parseFloat c)" for a b c
  proof -
    have "timeToSecs (TStr (join_str '':'' [a, b, c]))
          = js_add (js_add (js_mul (parseFloat a) (Fin 3600)) (js_mul (parseFloat b) (Fin 60)))
                   (parseFloat c)"
      using that by (subst timeToSecs_join) (simp_all add: at_num_def)
    then show ?thesis by simp
  qed
  have c1: "timeToSecs (TNum n) = n" by (simp add: timeToSecs_def)
  have c2: "CHR '':'' \<notin> set a \<and> CHR '':'' \<notin> set b
        \<and> parseFloat a = Fin m \<and> parseFloat b = Fin x
      \<longrightarrow> timeToSecs (TStr (a @ '':'' @ b)) = Fin (m * 60 + x)"
    using two [of a b] by auto
  have c3: "CHR '':'' \<notin> set a \<and> CHR '':'' \<notin> set b \<and> CHR '':'' \<notin> set c
        \<and> parseFloat a = Fin h \<and> parseFloat b = Fin m \<and> parseFloat c = Fin x
      \<longrightarrow> timeToSecs (TStr (a @ '':'' @ b @ '':'' @ c)) = Fin (h * 3600 + m * 60 + x)"
    using three [of a b c] by auto
  have c4: "CHR '':'' \<notin> set s \<longrightarrow> timeToSecs (TStr s) = parseFloat s"
    by (simp add: timeToSecs_def includes_colon_def)
  have e1: "timeToSecs (TStr ''01:02:03'') = Fin 3723" by code_simp
  have e2: "timeToSecs (TStr ''02:03'') = Fin 123" by code_simp
  have e3: "timeToSecs (TStr ''45'') = Fin 45" by code_simp
  have e4: "timeToSecs (TNum (Fin 90)) = Fin 90" by code_simp
  from two [of a b] three [of a b c] c1 c2 c3 c4 e1 e2 e3 e4 show ?thesis by blast
qed

theorem timeToSecs_reference_witness:
  "timeToSecs (TStr (''7'' @ '':'' @ ''30'')) = Fin 450
   \<and> timeToSecs (TStr (''1'' @ '':'' @ ''0'' @ '':'' @ ''2.5'')) = Fin (7205 / 2)
   \<and> timeToSecs (TStr (''Infinity'' @ '':'' @ ''30'')) = PosInf
   \<and> timeToSecs (TStr (''1'' @ '':'' @ ''Infinity'' @ '':'' @ ''30'')) = PosInf
   \<and> timeToSecs (TStr ''12.5abc'') = Fin (25 / 2)"
proof -
  have p7: "parseFloat ''7'' = Fin 7" by code_simp
  have p30: "parseFloat ''30'' = Fin 30" by code_simp
  have p1: "parseFloat ''1'' = Fin 1" by code_simp
  have p0: "parseFloat ''0'' = Fin 0" by code_simp
  have p25: "parseFloat ''2.5'' = Fin (5 / 2)" by code_simp
  have pinf: "parseFloat ''Infinity'' = PosInf" by code_simp
  have ps: "parseFloat ''12.5abc'' = Fin (25 / 2)" by code_simp
  have "timeToSecs (TStr (''7'' @ '':'' @ ''30'')) = Fin (7 * 60 + 30)"
    using timeToSecs_reference [where a = "''7''" and b = "''30''" and m = 7 and x = 30] p7 p30
    by simp
  moreover have "timeToSecs (TStr (''1'' @ '':'' @ ''0'' @ '':'' @ ''2.5''))
                 = Fin (1 * 3600 + 0 * 60 + 5 / 2)"
    using timeToSecs_reference [where a = "''1''" and b = "''0''" and c = "''2.5''"
                                  and h = 1 and m = 0 and x = "5 / 2"] p1 p0 p25
    by simp
  moreover have "timeToSecs (TStr (''Infinity'' @ '':'' @ ''30'')) = PosInf"
    using timeToSecs_reference [where a = "''Infinity''" and b = "''30''"] pinf p30
    by (simp add: inf_of_sign_def)
  moreover have "timeToSecs (TStr (''1'' @ '':'' @ ''Infinity'' @ '':'' @ ''30'')) = PosInf"
    using timeToSecs_reference [where a = "''1''" and b = "''Infinity''" and c = "''30''"]
      p1 pinf p30
    by (simp add: inf_of_sign_def)
  moreover have "timeToSecs (TStr ''12.5abc'') = Fin (25 / 2)"
    using timeToSecs_reference [where s = "''12.5abc''"] ps by simp
  ultimately show ?thesis by simp
qed

text \<open>
  Claim C10. A colon-separated string of four or more components that all parse as numbers
  gives \<open>component 0 * 3600 + component 1 * 60 + component 2\<close>: the components past the
  third are ignored. When any component, an extra one included, does not parse as a number,
  the result is 0. So \<open>"1:2:3:4"\<close> gives 3723 and \<open>"1:2:3:x"\<close> gives 0.
\<close>

theorem timeToSecs_extra_components:
  "(4 \<le> length cs \<and> (\<forall>c\<in>set cs. CHR '':'' \<notin> set c)
      \<and> (\<forall>c\<in>set cs. \<not> isNaN (parseFloat c))
    \<longrightarrow> timeToSecs (TStr (join_str '':'' cs))
        = js_add (js_add (js_mul (parseFloat (cs ! 0)) (Fin 3600))
                         (js_mul (parseFloat (cs ! 1)) (Fin 60)))
                 (parseFloat (cs ! 2)))
   \<and> (2 \<le> length cs \<and> (\<forall>c\<in>set cs. CHR '':'' \<notin> set c)
      \<and> (\<exists>c\<in>set cs. isNaN (parseFloat c))
    \<longrightarrow> timeToSecs (TStr (join_str '':'' cs)) = Fin 0)
   \<and> timeToSecs (TStr ''1:2:3:4'') = Fin 3723
   \<and> timeToSecs (TStr ''1:2:3:x'') = Fin 0"
proof (intro conjI impI)
  assume h: "4 \<le> length cs \<and> (\<forall>c\<in>set cs. CHR '':'' \<notin> set c)
      \<and> (\<forall>c\<in>set cs. \<not> isNaN (parseFloat c))"
  then have len: "2 \<le> length cs" and nc: "\<forall>c\<in>set cs. CHR '':'' \<notin> set c" by auto
  from h have "\<not> list_ex isNaN (map parseFloat cs)" by (simp add: list_ex_isNaN_map)
  moreover from h have "length cs \<noteq> 2" by simp
  moreover from h have "0 < length cs" "1 < length cs" "2 < length cs" by linarith+
  ultimately show "timeToSecs (TStr (join_str '':'' cs))
        = js_add (js_add (js_mul (parseFloat (cs ! 0)) (Fin 3600))
                         (js_mul (parseFloat (cs ! 1)) (Fin 60)))
                 (parseFloat (cs ! 2))"
    by (simp add: timeToSecs_join [OF len nc] at_num_def)
next
  assume h: "2 \<le> length cs \<and> (\<forall>c\<in>set cs. CHR '':'' \<notin> set c)
      \<and> (\<exists>c\<in>set cs. isNaN (parseFloat c))"
  then have len: "2 \<le> length cs" and nc: "\<forall>c\<in>set cs. CHR '':'' \<notin> set c" by auto
  from h have "list_ex isNaN (map parseFloat cs)" by (simp add: list_ex_isNaN_map)
  then show "timeToSecs (TStr (join_str '':'' cs)) = Fin 0"
    by (simp add: timeToSecs_join [OF len nc])
next
  show "timeToSecs (TStr ''1:2:3:4'') = Fin 3723" by code_simp
  show "timeToSecs (TStr ''1:2:3:x'') = Fin 0" by code_simp
qed

theorem timeToSecs_extra_components_witness:
  "timeToSecs (TStr (join_str '':'' [''1'', ''2'', ''3'', ''4'', ''5''])) = Fin 3723
   \<and> timeToSecs (TStr (join_str '':'' [''1'', ''2'', ''3'', ''4'', ''oops''])) = Fin 0"
proof -
  have p1: "parseFloat ''1'' = Fin 1" by code_simp
  have p2: "parseFloat ''2'' = Fin 2" by code_simp
  have p3: "parseFloat ''3'' = Fin 3" by code_simp
  have p4: "parseFloat ''4'' = Fin 4" by code_simp
  have p5: "parseFloat ''5'' = Fin 5" by code_simp
  have px: "parseFloat ''oops'' = NaN" by code_simp
  have "timeToSecs (TStr (join_str '':'' [''1'', ''2'', ''3'', ''4'', ''5'']))
        = js_add (js_add (js_mul (Fin 1) (Fin 3600)) (js_mul (Fin 2) (Fin 60))) (Fin 3)"
    using timeToSecs_extra_components [where cs = "[''1'', ''2'', ''3'', ''4'', ''5'']"]
      p1 p2 p3 p4 p5
    by simp
  moreover have "timeToSecs (TStr (join_str '':'' [''1'', ''2'', ''3'', ''4'', ''oops''])) = Fin 0"
    using timeToSecs_extra_components [where cs = "[''1'', ''2'', ''3'', ''4'', ''oops'']"] px
    by simp
  ultimately show ?thesis by simp
qed

text \<open>
  Claim C3. The claim wants 0 for every malformed string. The branch for strings with a
  colon does return 0 when a component fails to parse, but the branch for strings without
  a colon returns \<open>parseFloat\<close>'s result unchecked: \<open>"bad"\<close> gives \<open>NaN\<close>, not 0, while
  \<open>"bad:1"\<close> gives 0.
\<close>

theorem timeToSecs_bad_is_NaN:
  "timeToSecs (TStr ''bad'') = NaN
   \<and> timeToSecs (TStr ''bad'') \<noteq> Fin 0
   \<and> timeToSecs (TStr ''bad:1'') = Fin 0"
proof -
  have "timeToSecs (TStr ''bad'') = NaN" by code_simp
  moreover have "timeToSecs (TStr ''bad:1'') = Fin 0" by code_simp
  ultimately show ?thesis by simp
qed

section \<open>Properties of generateSrt\<close>

lemma join_str_Cons:
  "join_str sep (a # l) = (if l = [] then a else a @ sep @ join_str sep l)"
  by (cases l) simp_all

lemma srt_entry_last:
  "srt_entry (pre @ [r]) d (length pre, r)
   = subtitle_block (length pre + 1) (timeToSecs (time_of r)) d (text_str r)"
  by (simp add: srt_entry_def subtitle_block_def)

lemma srt_entry_inner:
  "srt_entry (pre @ r # r' # rs) d (length pre, r)
   = subtitle_block (length pre + 1) (timeToSecs (time_of r)) (timeToSecs (time_of r'))
       (text_str r)"
  by (simp add: srt_entry_def subtitle_block_def nth_append)

text \<open>
  The entries of a suffix of the list, numbered from where the suffix starts, join into the
  document of that suffix. The callback looks into the whole list, hence the prefix.
\<close>

lemma srt_entries_document:
  "join_str [CHR 0x0A] (map (srt_entry (pre @ xs) d) (enumerate (length pre) xs))
   = toSubtitleDocument (length pre) xs d"
proof (induction xs arbitrary: pre rule: induct_list012)
  case 1
  show ?case by simp
next
  case (2 r)
  show ?case by (simp add: srt_entry_last)
next
  case (3 r r' rs)
  have ih: "join_str [CHR 0x0A]
     (map (srt_entry (pre @ r # r' # rs) d) (enumerate (Suc (length pre)) (r' # rs)))
     = toSubtitleDocument (Suc (length pre)) (r' # rs) d"
    using "3.IH"(2) [of "pre @ [r]"] by simp
  have "join_str [CHR 0x0A]
          (map (srt_entry (pre @ r # r' # rs) d) (enumerate (length pre) (r # r' # rs)))
        = srt_entry (pre @ r # r' # rs) d (length pre, r) @ [CHR 0x0A]
          @ join_str [CHR 0x0A]
              (map (srt_entry (pre @ r # r' # rs) d) (enumerate (Suc (length pre)) (r' # rs)))"
    by simp
  also have "\<dots> = toSubtitleDocument (length pre) (r # r' # rs) d"
    using ih by (simp add: srt_entry_inner)
  finally show ?case .
qed

lemma enumerate_nth: "enumerate 0 xs = map (\<lambda>i. (i, xs ! i)) [0..<length xs]"
  by (rule nth_equalityI) (simp_all add: nth_enumerate_eq)

text \<open>
  Claim C4. For every list of records and every total duration, \<open>generateSrt\<close> emits one
  block per record: the record at index \<open>i\<close> gives the sequence number \<open>i + 1\<close>, then
  \<open>formatSrtTime start --> formatSrtTime end\<close> with \<open>start\<close> the parsed time of record \<open>i\<close>
  and \<open>end\<close> the parsed time of record \<open>i + 1\<close> when there is one, else the total duration,
  then the text; blocks are separated by a blank line (the document is the one the
  specification describes); the empty list gives the empty string; and the two records
  \<open>0:00 Hi\<close>, \<open>0:05 Bye\<close> with total duration 10 give the blocks
  \<open>00:00:00,000 --> 00:00:05,000\<close> and \<open>00:00:05,000 --> 00:00:10,000\<close>.
\<close>

theorem generateSrt_blocks:
  "generateSrt records totalDuration = toSubtitleDocument 0 records totalDuration
   \<and> generateSrt records totalDuration
     = join_str [CHR 0x0A]
         (map (\<lambda>i. nat_digits (i + 1) @ [CHR 0x0A]
                    @ formatSrtTime (timeToSecs (time_of (records ! i))) @ '' --> ''
                    @ formatSrtTime
                        (if i + 1 < length records then timeToSecs (time_of (records ! (i + 1)))
                         else totalDuration)
                    @ [CHR 0x0A] @ text_str (records ! i) @ [CHR 0x0A])
              [0..<length records])
   \<and> generateSrt [] totalDuration = []
   \<and> generateSrt [TextTimecode (TStr ''0:00'') ''Hi'', TextTimecode (TStr ''0:05'') ''Bye'']
        (Fin 10)
     = ''1\<newline>00:00:00,000 --> 00:00:05,000\<newline>Hi\<newline>\<newline>2\<newline>00:00:05,000 --> 00:00:10,000\<newline>Bye\<newline>''"
proof -
  have a: "generateSrt records totalDuration = toSubtitleDocument 0 records totalDuration"
    using srt_entries_document [of "[]" records totalDuration] by (simp add: generateSrt_def)
  have "int i < int (length records) - 1 \<longleftrightarrow> i + 1 < length records" for i by linarith
  then have b: "generateSrt records totalDuration
     = join_str [CHR 0x0A]
         (map (\<lambda>i. nat_digits (i + 1) @ [CHR 0x0A]
                    @ formatSrtTime (timeToSecs (time_of (records ! i))) @ '' --> ''
                    @ formatSrtTime
                        (if i + 1 < length records then timeToSecs (time_of (records ! (i + 1)))
                         else totalDuration)
                    @ [CHR 0x0A] @ text_str (records ! i) @ [CHR 0x0A])
              [0..<length records])"
    by (simp add: generateSrt_def enumerate_nth srt_entry_def o_def if_distrib [of formatSrtTime])
  have c: "generateSrt [] totalDuration = []" by (simp add: generateSrt_def)
  have d: "generateSrt [TextTimecode (TStr ''0:00'') ''Hi'', TextTimecode (TStr ''0:05'') ''Bye'']
        (Fin 10)
     = ''1\<newline>00:00:00,000 --> 00:00:05,000\<newline>Hi\<newline>\<newline>2\<newline>00:00:05,000 --> 00:00:10,000\<newline>Bye\<newline>''"
    by code_simp
  from a b c d show ?thesis by blast
qed

theorem generateSrt_blocks_witness:
  "generateSrt [TextTimecode (TStr ''1:00'') ''x''] (Fin (181 / 2))
   = ''1\<newline>00:01:00,000 --> 00:01:30,500\<newline>x\<newline>''"
proof -
  have "toSubtitleDocument 0 [TextTimecode (TStr ''1:00'') ''x''] (Fin (181 / 2))
        = ''1\<newline>00:01:00,000 --> 00:01:30,500\<newline>x\<newline>''"
    by code_simp
  then show ?thesis
    using generateSrt_blocks [of "[TextTimecode (TStr ''1:00'') ''x'']" "Fin (181 / 2)"]
    by simp
qed

section \<open>Properties of the caption lookup\<close>

lemma js_le_trans: "js_le a b \<Longrightarrow> js_le b c \<Longrightarrow> js_le a c"
  by (cases a; cases b; cases c) auto

lemma sorted_by_time_le:
  assumes "sorted_by_time tcl" "0 \<le> i" "i < j" "j < int (length tcl)"
  shows "js_le (timeToSecs (time_of (tcl ! nat i))) (timeToSecs (time_of (tcl ! nat j)))"
proof -
  have "nat i < nat j" "nat j < length tcl" using assms by auto
  then show ?thesis
    using assms(1) unfolding sorted_by_time_def by (simp add: sorted_wrt_iff_nth_less)
qed

lemma caption_search_correct:
  assumes srt: "sorted_by_time tcl"
    and "0 \<le> low" "high < int (length tcl)" "low \<le> high + 1" "best = low - 1"
    and "\<forall>i. 0 \<le> i \<and> i < low \<longrightarrow> js_le (timeToSecs (time_of (tcl ! nat i))) p"
    and "\<forall>i. high < i \<and> i < int (length tcl) \<longrightarrow> \<not> js_le (timeToSecs (time_of (tcl ! nat i))) p"
  shows "\<exists>r. caption_search tcl p low high best = Inr r \<and> - 1 \<le> r \<and> r < int (length tcl)
           \<and> (\<forall>i. 0 \<le> i \<and> i \<le> r \<longrightarrow> js_le (timeToSecs (time_of (tcl ! nat i))) p)
           \<and> (\<forall>i. r < i \<and> i < int (length tcl) \<longrightarrow> \<not> js_le (timeToSecs (time_of (tcl ! nat i))) p)"
  using assms(2-)
proof (induction "nat (high - low + 1)" arbitrary: low high best rule: less_induct)
  case less
  show ?case
  proof (cases "low \<le> high")
    case False
    then have "caption_search tcl p low high best = Inr best"
      by (subst caption_search.simps) simp
    moreover from False less.prems have "high = low - 1" by simp
    ultimately show ?thesis using less.prems by auto
  next
    case True
    define mid where "mid = (low + high) div 2"
    have mid: "low \<le> mid" "mid \<le> high" using True by (auto simp: mid_def)
    then have inr: "0 \<le> mid" "mid < int (length tcl)" using less.prems by auto
    show ?thesis
    proof (cases "js_le (timeToSecs (time_of (tcl ! nat mid))) p")
      case le: True
      have step: "caption_search tcl p low high best = caption_search tcl p (mid + 1) high mid"
        using True inr le by (subst caption_search.simps) (simp add: mid_def)
      have below: "\<forall>i. 0 \<le> i \<and> i < mid + 1 \<longrightarrow> js_le (timeToSecs (time_of (tcl ! nat i))) p"
      proof (intro allI impI)
        fix i assume i: "0 \<le> i \<and> i < mid + 1"
        show "js_le (timeToSecs (time_of (tcl ! nat i))) p"
        proof (cases "i = mid")
          case True with le show ?thesis by simp
        next
          case False
          with i have "i < mid" by simp
          from sorted_by_time_le [OF srt _ this inr(2)] i le show ?thesis
            by (blast intro: js_le_trans)
        qed
      qed
      have "nat (high - (mid + 1) + 1) < nat (high - low + 1)" using mid by auto
      from less.hyps [OF this, of mid] below less.prems mid inr
      show ?thesis unfolding step by auto
    next
      case nle: False
      have step: "caption_search tcl p low high best = caption_search tcl p low (mid - 1) best"
        using True inr nle by (subst caption_search.simps) (simp add: mid_def)
      have above: "\<forall>i. mid - 1 < i \<and> i < int (length tcl) \<longrightarrow> \<not> js_le (timeToSecs (time_of (tcl ! nat i))) p"
      proof (intro allI impI)
        fix i assume i: "mid - 1 < i \<and> i < int (length tcl)"
        show "\<not> js_le (timeToSecs (time_of (tcl ! nat i))) p"
        proof (cases "i = mid")
          case True with nle show ?thesis by simp
        next
          case False
          with i have "mid < i" "i < int (length tcl)" by simp_all
          from sorted_by_time_le [OF srt inr(1) this] nle show ?thesis
            by (blast intro: js_le_trans)
        qed
      qed
      have "nat ((mid - 1) - low + 1) < nat (high - low + 1)" using mid by auto
      from less.hyps [OF this, of best] above less.prems mid inr
      show ?thesis unfolding step by auto
    qed
  qed
qed

lemma linear_scan_last:
  "(linear_scan xs p k best = best \<and> (\<forall>x\<in>set xs. \<not> js_le (timeToSecs (time_of x)) p))
   \<or> (\<exists>j<length xs. linear_scan xs p k best = int (k + j)
         \<and> js_le (timeToSecs (time_of (xs ! j))) p
         \<and> (\<forall>j'. j < j' \<and> j' < length xs \<longrightarrow> \<not> js_le (timeToSecs (time_of (xs ! j'))) p))"
proof (induction xs arbitrary: k best)
  case Nil
  show ?case by simp
next
  case (Cons x xs)
  let ?b = "if js_le (timeToSecs (time_of x)) p then int k else best"
  from Cons.IH [of "k + 1" ?b]
  show ?case
  proof
    assume a: "linear_scan xs p (k + 1) ?b = ?b \<and> (\<forall>x\<in>set xs. \<not> js_le (timeToSecs (time_of x)) p)"
    show ?thesis
    proof (cases "js_le (timeToSecs (time_of x)) p")
      case True
      with a have "linear_scan (x # xs) p k best = int (k + 0)" by simp
      moreover have "\<forall>j'. 0 < j' \<and> j' < length (x # xs) \<longrightarrow> \<not> js_le (timeToSecs (time_of ((x # xs) ! j'))) p"
        using a by (auto simp: nth_Cons split: nat.splits)
      ultimately show ?thesis using True by (intro disjI2 exI [of _ 0]) simp
    next
      case False
      with a show ?thesis by simp
    qed
  next
    assume "\<exists>j<length xs. linear_scan xs p (k + 1) ?b = int (k + 1 + j)
         \<and> js_le (timeToSecs (time_of (xs ! j))) p
         \<and> (\<forall>j'. j < j' \<and> j' < length xs \<longrightarrow> \<not> js_le (timeToSecs (time_of (xs ! j'))) p)"
    then obtain j where j: "j < length xs" "linear_scan xs p (k + 1) ?b = int (k + 1 + j)"
         "js_le (timeToSecs (time_of (xs ! j))) p"
         "\<forall>j'. j < j' \<and> j' < length xs \<longrightarrow> \<not> js_le (timeToSecs (time_of (xs ! j'))) p"
      by blast
    have "\<forall>j'. Suc j < j' \<and> j' < length (x # xs) \<longrightarrow> \<not> js_le (timeToSecs (time_of ((x # xs) ! j'))) p"
      using j(4) by (auto simp: nth_Cons split: nat.splits)
    with j show ?thesis by (intro disjI2 exI [of _ "Suc j"]) simp
  qed
qed


lemma bestIndexAt_last:
  assumes srt: "sorted_by_time tcl"
  shows "\<exists>r. bestIndexAt tcl p = Inr r \<and> - 1 \<le> r \<and> r < int (length tcl)
           \<and> (\<forall>i. 0 \<le> i \<and> i \<le> r \<longrightarrow> js_le (timeToSecs (time_of (tcl ! nat i))) p)
           \<and> (\<forall>i. r < i \<and> i < int (length tcl) \<longrightarrow> \<not> js_le (timeToSecs (time_of (tcl ! nat i))) p)"
  unfolding bestIndexAt_def
  by (rule caption_search_correct [OF srt]) auto

lemma bestIndexAt_linear_scan:
  assumes srt: "sorted_by_time tcl"
  shows "bestIndexAt tcl p = Inr (linear_scan tcl p 0 (- 1))"
proof -
  from bestIndexAt_last [OF srt, of p] obtain r where
    r: "bestIndexAt tcl p = Inr r" "- 1 \<le> r" "r < int (length tcl)"
       "\<And>i. 0 \<le> i \<Longrightarrow> i \<le> r \<Longrightarrow> js_le (timeToSecs (time_of (tcl ! nat i))) p"
       "\<And>i. r < i \<Longrightarrow> i < int (length tcl) \<Longrightarrow> \<not> js_le (timeToSecs (time_of (tcl ! nat i))) p"
    by blast
  from linear_scan_last [of tcl p 0 "- 1"]
  have "linear_scan tcl p 0 (- 1) = r"
  proof
    assume a: "linear_scan tcl p 0 (- 1) = - 1 \<and> (\<forall>x\<in>set tcl. \<not> js_le (timeToSecs (time_of x)) p)"
    have "r = - 1"
    proof (rule ccontr)
      assume "r \<noteq> - 1"
      with r(2) have "0 \<le> r" by simp
      from r(4) [OF this] have "js_le (timeToSecs (time_of (tcl ! nat r))) p" by simp
      moreover have "tcl ! nat r \<in> set tcl" using \<open>0 \<le> r\<close> r(3) by simp
      ultimately show False using a by blast
    qed
    with a show ?thesis by simp
  next
    assume "\<exists>j<length tcl. linear_scan tcl p 0 (- 1) = int (0 + j)
         \<and> js_le (timeToSecs (time_of (tcl ! j))) p
         \<and> (\<forall>j'. j < j' \<and> j' < length tcl \<longrightarrow> \<not> js_le (timeToSecs (time_of (tcl ! j'))) p)"
    then obtain j where j: "j < length tcl" "linear_scan tcl p 0 (- 1) = int j"
         "js_le (timeToSecs (time_of (tcl ! j))) p"
         "\<And>j'. j < j' \<Longrightarrow> j' < length tcl \<Longrightarrow> \<not> js_le (timeToSecs (time_of (tcl ! j'))) p"
      by auto
    have "\<not> r < int j"
    proof
      assume "r < int j"
      from r(5) [OF this] j(1,3) show False by simp
    qed
    moreover have "\<not> int j < r"
    proof
      assume lt: "int j < r"
      then have "0 \<le> r" by simp
      from r(4) [OF this] have "js_le (timeToSecs (time_of (tcl ! nat r))) p" by simp
      moreover have "j < nat r" "nat r < length tcl" using lt r(3) by auto
      ultimately show False using j(4) by blast
    qed
    ultimately show ?thesis using j(2) by simp
  qed
  with r(1) show ?thesis by simp
qed

text \<open>
  Claim C1. On a sequence sorted ascending by parsed time (each earlier time \<open><=\<close> each
  later one as JavaScript compares them, which \<open>NaN\<close> never satisfies), the binary search of
  \<open>updateTime\<close> returns the index the linear scan returns: the last index whose time is
  at most the position \<open>p\<close>, and \<open>-1\<close> (no record, no caption) exactly when no record has
  a time at most \<open>p\<close>, as when the sequence is empty. \<open>updateTime\<close> then shows the text of
  that record. On the two records \<open>{t: 5, "a"}\<close>, \<open>{t: 5, "b"}\<close> at position 5 it selects
  index 1 and shows \<open>"b"\<close>.
\<close>

theorem caption_lookup_is_linear_scan:
  "(sorted_by_time tcl \<longrightarrow>
      (\<exists>r. bestIndexAt tcl p = Inr r
         \<and> r = linear_scan tcl p 0 (- 1)
         \<and> (r = - 1 \<longleftrightarrow> (\<forall>x\<in>set tcl. \<not> js_le (timeToSecs (time_of x)) p))
         \<and> (r \<noteq> - 1 \<longrightarrow>
              0 \<le> r \<and> r < int (length tcl)
              \<and> js_le (timeToSecs (time_of (tcl ! nat r))) p
              \<and> (\<forall>j. r < j \<and> j < int (length tcl)
                     \<longrightarrow> \<not> js_le (timeToSecs (time_of (tcl ! nat j))) p))
         \<and> (\<exists>st'. updateTime (Some tcl) (Some \<lparr>el_currentTime = p, el_duration = d\<rparr>) st = Inr st'
                \<and> currentCaption st' = (if r = - 1 then None else text_of (tcl ! nat r)))))
   \<and> bestIndexAt [] p = Inr (- 1)
   \<and> bestIndexAt [TextTimecode (TNum (Fin 5)) ''a'', TextTimecode (TNum (Fin 5)) ''b''] (Fin 5)
     = Inr 1
   \<and> (\<exists>st'. updateTime (Some [TextTimecode (TNum (Fin 5)) ''a'', TextTimecode (TNum (Fin 5)) ''b''])
              (Some \<lparr>el_currentTime = Fin 5, el_duration = Fin 10\<rparr>) st = Inr st'
           \<and> currentCaption st' = Some ''b'')"
proof (intro conjI impI)
  assume srt: "sorted_by_time tcl"
  from bestIndexAt_last [OF srt, of p] obtain r where
    r: "bestIndexAt tcl p = Inr r" "- 1 \<le> r" "r < int (length tcl)"
       "\<And>i. 0 \<le> i \<Longrightarrow> i \<le> r \<Longrightarrow> js_le (timeToSecs (time_of (tcl ! nat i))) p"
       "\<And>i. r < i \<Longrightarrow> i < int (length tcl) \<Longrightarrow> \<not> js_le (timeToSecs (time_of (tcl ! nat i))) p"
    by blast
  have lin: "r = linear_scan tcl p 0 (- 1)"
    using bestIndexAt_linear_scan [OF srt, of p] r(1) by simp
  have none: "r = - 1 \<longleftrightarrow> (\<forall>x\<in>set tcl. \<not> js_le (timeToSecs (time_of x)) p)"
  proof
    assume m: "r = - 1"
    show "\<forall>x\<in>set tcl. \<not> js_le (timeToSecs (time_of x)) p"
    proof
      fix x assume "x \<in> set tcl"
      then obtain i where i: "i < length tcl" "x = tcl ! i" by (auto simp: in_set_conv_nth)
      from r(5) [of "int i"] m i show "\<not> js_le (timeToSecs (time_of x)) p" by simp
    qed
  next
    assume a: "\<forall>x\<in>set tcl. \<not> js_le (timeToSecs (time_of x)) p"
    show "r = - 1"
    proof (rule ccontr)
      assume "r \<noteq> - 1"
      with r(2) have "0 \<le> r" by simp
      from r(4) [OF this] have "js_le (timeToSecs (time_of (tcl ! nat r))) p" by simp
      moreover have "tcl ! nat r \<in> set tcl" using \<open>0 \<le> r\<close> r(3) by simp
      ultimately show False using a by blast
    qed
  qed
  have some: "r \<noteq> - 1 \<longrightarrow>
              0 \<le> r \<and> r < int (length tcl)
              \<and> js_le (timeToSecs (time_of (tcl ! nat r))) p
              \<and> (\<forall>j. r < j \<and> j < int (length tcl)
                     \<longrightarrow> \<not> js_le (timeToSecs (time_of (tcl ! nat j))) p)"
    using r(2,3) r(4) [of r] r(5) by auto
  have upd: "\<exists>st'. updateTime (Some tcl) (Some \<lparr>el_currentTime = p, el_duration = d\<rparr>) st = Inr st'
                \<and> currentCaption st' = (if r = - 1 then None else text_of (tcl ! nat r))"
  proof (cases "tcl = []")
    case True
    with r(3) r(2) have "r = - 1" by simp
    with True show ?thesis by (simp add: updateTime_def Let_def)
  next
    case False
    then show ?thesis using r(1) by (simp add: updateTime_def Let_def)
  qed
  from r(1) lin none some upd
  show "\<exists>r. bestIndexAt tcl p = Inr r
         \<and> r = linear_scan tcl p 0 (- 1)
         \<and> (r = - 1 \<longleftrightarrow> (\<forall>x\<in>set tcl. \<not> js_le (timeToSecs (time_of x)) p))
         \<and> (r \<noteq> - 1 \<longrightarrow>
              0 \<le> r \<and> r < int (length tcl)
              \<and> js_le (timeToSecs (time_of (tcl ! nat r))) p
              \<and> (\<forall>j. r < j \<and> j < int (length tcl)
                     \<longrightarrow> \<not> js_le (timeToSecs (time_of (tcl ! nat j))) p))
         \<and> (\<exists>st'. updateTime (Some tcl) (Some \<lparr>el_currentTime = p, el_duration = d\<rparr>) st = Inr st'
                \<and> currentCaption st' = (if r = - 1 then None else text_of (tcl ! nat r)))"
    by blast
next
  show "bestIndexAt [] p = Inr (- 1)"
    by (simp add: bestIndexAt_def caption_search.simps)
next
  show b: "bestIndexAt [TextTimecode (TNum (Fin 5)) ''a'', TextTimecode (TNum (Fin 5)) ''b''] (Fin 5)
     = Inr 1"
    by code_simp
  show "\<exists>st'. updateTime (Some [TextTimecode (TNum (Fin 5)) ''a'', TextTimecode (TNum (Fin 5)) ''b''])
              (Some \<lparr>el_currentTime = Fin 5, el_duration = Fin 10\<rparr>) st = Inr st'
           \<and> currentCaption st' = Some ''b''"
    by (simp add: updateTime_def Let_def b)
qed


theorem caption_lookup_is_linear_scan_witness:
  "sorted_by_time [TextTimecode (TStr ''0:00'') ''x'', TextTimecode (TStr ''0:05'') ''y'',
                   ValueTimecode (TStr ''0:10'') (Fin 3)]
   \<and> bestIndexAt [TextTimecode (TStr ''0:00'') ''x'', TextTimecode (TStr ''0:05'') ''y'',
                   ValueTimecode (TStr ''0:10'') (Fin 3)] (Fin 7) = Inr 1
   \<and> bestIndexAt [TextTimecode (TStr ''0:00'') ''x'', TextTimecode (TStr ''0:05'') ''y'',
                   ValueTimecode (TStr ''0:10'') (Fin 3)] (Fin (- 1)) = Inr (- 1)"
proof -
  let ?l = "[TextTimecode (TStr ''0:00'') ''x'', TextTimecode (TStr ''0:05'') ''y'',
             ValueTimecode (TStr ''0:10'') (Fin 3)]"
  have s: "sorted_by_time ?l" by code_simp
  have l1: "linear_scan ?l (Fin 7) 0 (- 1) = 1" by code_simp
  have l2: "linear_scan ?l (Fin (- 1)) 0 (- 1) = - 1" by code_simp
  from caption_lookup_is_linear_scan [of ?l "Fin 7"] s l1
  have "bestIndexAt ?l (Fin 7) = Inr 1" by auto
  moreover from caption_lookup_is_linear_scan [of ?l "Fin (- 1)"] s l2
  have "bestIndexAt ?l (Fin (- 1)) = Inr (- 1)" by auto
  ultimately show ?thesis using s by simp
qed

text \<open>The search never reads outside the list, sorted or not.\<close>

lemma caption_search_total:
  assumes "0 \<le> low" "high < int (length tcl)" "best = - 1 \<or> (0 \<le> best \<and> best < int (length tcl))"
  shows "\<exists>r. caption_search tcl p low high best = Inr r \<and> (r = - 1 \<or> (0 \<le> r \<and> r < int (length tcl)))"
  using assms
proof (induction "nat (high - low + 1)" arbitrary: low high best rule: less_induct)
  case less
  show ?case
  proof (cases "low \<le> high")
    case False
    then have "caption_search tcl p low high best = Inr best"
      by (subst caption_search.simps) simp
    then show ?thesis using less.prems by simp
  next
    case True
    define mid where "mid = (low + high) div 2"
    have mid: "low \<le> mid" "mid \<le> high" using True by (auto simp: mid_def)
    then have inr: "0 \<le> mid" "mid < int (length tcl)" using less.prems by auto
    show ?thesis
    proof (cases "js_le (timeToSecs (time_of (tcl ! nat mid))) p")
      case le: True
      have step: "caption_search tcl p low high best = caption_search tcl p (mid + 1) high mid"
        using True inr le by (subst caption_search.simps) (simp add: mid_def)
      have "nat (high - (mid + 1) + 1) < nat (high - low + 1)" using mid by auto
      from less.hyps [OF this, of mid] less.prems mid inr
      show ?thesis unfolding step by auto
    next
      case nle: False
      have step: "caption_search tcl p low high best = caption_search tcl p low (mid - 1) best"
        using True inr nle by (subst caption_search.simps) (simp add: mid_def)
      have "nat ((mid - 1) - low + 1) < nat (high - low + 1)" using mid by auto
      from less.hyps [OF this, of best] less.prems mid inr
      show ?thesis unfolding step by auto
    qed
  qed
qed

lemma bestIndexAt_total:
  "\<exists>r. bestIndexAt tcl p = Inr r \<and> (r = - 1 \<or> (0 \<le> r \<and> r < int (length tcl)))"
  unfolding bestIndexAt_def by (rule caption_search_total) auto

text \<open>What one call of \<open>updateTime\<close> on a media element does to each part of the state.\<close>

lemma updateTime_Some:
  "\<exists>st'. updateTime tcs (Some v) st = Inr st'
     \<and> scrubberTime st' = (if isScrubbing st then scrubberTime st
                           else js_or0 (js_div (el_currentTime v) (el_duration v)))
     \<and> isScrubbing st' = isScrubbing st
     \<and> duration st' = duration st
     \<and> isPlaying st' = isPlaying st
     \<and> currentCaption st' =
         (case tcs of
            None \<Rightarrow> None
          | Some tcl \<Rightarrow>
              (case bestIndexAt tcl (el_currentTime v) of
                 Inr r \<Rightarrow> if r = - 1 then None else text_of (tcl ! nat r)
               | Inl e \<Rightarrow> None))"
proof (cases tcs)
  case None
  then show ?thesis by (simp add: updateTime_def Let_def)
next
  case (Some tcl)
  from bestIndexAt_total [of tcl "el_currentTime v"] obtain r where
    r: "bestIndexAt tcl (el_currentTime v) = Inr r" "r = - 1 \<or> (0 \<le> r \<and> r < int (length tcl))"
    by blast
  show ?thesis
  proof (cases "tcl = []")
    case True
    with r(2) have "r = - 1" by auto
    with Some True r(1) show ?thesis by (simp add: updateTime_def Let_def)
  next
    case False
    with Some r(1) show ?thesis by (simp add: updateTime_def Let_def)
  qed
qed

lemma updateTime_None: "updateTime tcs None st = Inr st"
  by (simp add: updateTime_def)

lemma updateTime_scrubbing:
  assumes "isScrubbing st"
  shows "\<exists>st'. updateTime tcs videoRef st = Inr st'
           \<and> scrubberTime st' = scrubberTime st \<and> isScrubbing st' \<and> duration st' = duration st"
proof (cases videoRef)
  case None
  then show ?thesis using assms by (simp add: updateTime_None)
next
  case (Some v)
  from updateTime_Some [of tcs v st] assms Some show ?thesis by auto
qed

lemma positionTicks_scrubbing:
  assumes "isScrubbing st"
  shows "\<exists>st'. positionTicks tcs vs st = Inr st'
           \<and> scrubberTime st' = scrubberTime st \<and> isScrubbing st' \<and> duration st' = duration st"
  using assms
proof (induction vs arbitrary: st)
  case Nil
  then show ?case by simp
next
  case (Cons v vs)
  from updateTime_scrubbing [OF Cons.prems, of tcs v] obtain st1 where
    st1: "updateTime tcs v st = Inr st1" "scrubberTime st1 = scrubberTime st"
         "isScrubbing st1" "duration st1 = duration st"
    by blast
  from Cons.IH [OF st1(3)] st1 show ?case by auto
qed


section \<open>Properties of the player state\<close>

text \<open>
  Claim C2, as stated, fails: \<open>updateTime\<close> tests the scrubbing flag only around
  \<open>setScrubberTime\<close>; the caption is recomputed at every tick. Here a tick during
  scrubbing turns the displayed caption from none into \<open>"a"\<close>.
\<close>

theorem scrubbing_tick_changes_caption:
  "isScrubbing \<lparr>duration = Fin 10, scrubberTime = Fin 0, isPlaying = True, isScrubbing = True,
          volume = Fin 1, isMuted = False, currentCaption = None\<rparr>
   \<and> displayedCaption \<lparr>duration = Fin 10, scrubberTime = Fin 0, isPlaying = True, isScrubbing = True,
          volume = Fin 1, isMuted = False, currentCaption = None\<rparr> = None
   \<and> positionTicks (Some [TextTimecode (TStr ''0:00'') ''a''])
        [Some \<lparr>el_currentTime = Fin 1, el_duration = Fin 10\<rparr>]
        \<lparr>duration = Fin 10, scrubberTime = Fin 0, isPlaying = True, isScrubbing = True,
          volume = Fin 1, isMuted = False, currentCaption = None\<rparr>
     = Inr \<lparr>duration = Fin 10, scrubberTime = Fin 0, isPlaying = True, isScrubbing = True,
          volume = Fin 1, isMuted = False, currentCaption = Some ''a''\<rparr>
   \<and> displayedCaption \<lparr>duration = Fin 10, scrubberTime = Fin 0, isPlaying = True, isScrubbing = True,
          volume = Fin 1, isMuted = False, currentCaption = Some ''a''\<rparr> = Some ''a''"
proof -
  have b: "bestIndexAt [TextTimecode (TStr ''0:00'') ''a''] (Fin 1) = Inr 0" by code_simp
  show ?thesis by (simp add: updateTime_def Let_def displayedCaption_def b)
qed

lemma positionTicks_append:
  "positionTicks tcs (ws @ [x]) st =
     (case positionTicks tcs ws st of Inl e \<Rightarrow> Inl e | Inr s \<Rightarrow> updateTime tcs x s)"
  by (induction ws arbitrary: st) (auto split: sum.splits)

lemma updateTime_total: "\<exists>st'. updateTime tcs videoRef st = Inr st'"
proof (cases videoRef)
  case None
  then show ?thesis by (simp add: updateTime_None)
next
  case (Some v)
  from updateTime_Some [of tcs v st] Some show ?thesis by auto
qed

lemma positionTicks_total: "\<exists>st'. positionTicks tcs vs st = Inr st'"
proof (induction vs arbitrary: st)
  case Nil
  show ?case by simp
next
  case (Cons v vs)
  from updateTime_total [of tcs v st] obtain st1 where "updateTime tcs v st = Inr st1" by blast
  with Cons.IH [of st1] show ?case by simp
qed

text \<open>
  Claim C2, amended. While the scrubbing flag is set, any run of position ticks returns,
  leaves the scrubber position (\<open>scrubberTime\<close>, hence the displayed seconds) unchanged
  and leaves the flag set. The caption is not held: after a tick on a media element, scrubbing
  or not, it is the text of the record the lookup selects at that element's current time.
\<close>

theorem scrubbing_ticks_keep_scrubber:
  "(isScrubbing st \<longrightarrow>
      (\<exists>st'. positionTicks tcs vs st = Inr st'
         \<and> scrubberTime st' = scrubberTime st \<and> currentSecs st' = currentSecs st
         \<and> isScrubbing st'))
   \<and> (\<exists>st'. positionTicks tcs (vs @ [Some v]) st = Inr st'
         \<and> currentCaption st' =
             (case tcs of
                None \<Rightarrow> None
              | Some tcl \<Rightarrow>
                  (case bestIndexAt tcl (el_currentTime v) of
                     Inr r \<Rightarrow> if r = - 1 then None else text_of (tcl ! nat r)
                   | Inl e \<Rightarrow> None)))"
proof (intro conjI impI)
  assume "isScrubbing st"
  from positionTicks_scrubbing [OF this, of tcs vs]
  show "\<exists>st'. positionTicks tcs vs st = Inr st'
         \<and> scrubberTime st' = scrubberTime st \<and> currentSecs st' = currentSecs st
         \<and> isScrubbing st'"
    by (auto simp: currentSecs_def)
next
  from positionTicks_total [of tcs vs st] obtain s where s: "positionTicks tcs vs st = Inr s"
    by blast
  from updateTime_Some [of tcs v s] s
  show "\<exists>st'. positionTicks tcs (vs @ [Some v]) st = Inr st'
         \<and> currentCaption st' =
             (case tcs of
                None \<Rightarrow> None
              | Some tcl \<Rightarrow>
                  (case bestIndexAt tcl (el_currentTime v) of
                     Inr r \<Rightarrow> if r = - 1 then None else text_of (tcl ! nat r)
                   | Inl e \<Rightarrow> None))"
    by (auto simp: positionTicks_append)
qed

theorem scrubbing_ticks_keep_scrubber_witness:
  "isScrubbing \<lparr>duration = Fin 10, scrubberTime = Fin (3 / 10), isPlaying = True,
                isScrubbing = True, volume = Fin 1, isMuted = False, currentCaption = None\<rparr>
   \<and> positionTicks (Some [TextTimecode (TStr ''0:00'') ''a''])
        [Some \<lparr>el_currentTime = Fin 1, el_duration = Fin 10\<rparr>,
         Some \<lparr>el_currentTime = Fin 2, el_duration = Fin 10\<rparr>]
        \<lparr>duration = Fin 10, scrubberTime = Fin (3 / 10), isPlaying = True,
         isScrubbing = True, volume = Fin 1, isMuted = False, currentCaption = None\<rparr>
     = Inr \<lparr>duration = Fin 10, scrubberTime = Fin (3 / 10), isPlaying = True,
            isScrubbing = True, volume = Fin 1, isMuted = False, currentCaption = Some ''a''\<rparr>"
proof -
  let ?st = "\<lparr>duration = Fin 10, scrubberTime = Fin (3 / 10), isPlaying = True,
              isScrubbing = True, volume = Fin 1, isMuted = False, currentCaption = None\<rparr>"
  let ?tcs = "Some [TextTimecode (TStr ''0:00'') ''a'']"
  let ?vs = "[Some \<lparr>el_currentTime = Fin 1, el_duration = Fin 10\<rparr>,
              Some \<lparr>el_currentTime = Fin 2, el_duration = Fin 10\<rparr>]"
  have sc: "isScrubbing ?st" by simp
  have b1: "bestIndexAt [TextTimecode (TStr ''0:00'') ''a''] (Fin 1) = Inr 0" by code_simp
  have b2: "bestIndexAt [TextTimecode (TStr ''0:00'') ''a''] (Fin 2) = Inr 0" by code_simp
  from scrubbing_ticks_keep_scrubber [of ?st ?tcs ?vs] sc
  obtain st' where st': "positionTicks ?tcs ?vs ?st = Inr st'" "scrubberTime st' = scrubberTime ?st"
    by blast
  have "positionTicks ?tcs ?vs ?st
        = Inr \<lparr>duration = Fin 10, scrubberTime = Fin (3 / 10), isPlaying = True,
            isScrubbing = True, volume = Fin 1, isMuted = False, currentCaption = Some ''a''\<rparr>"
    by (simp add: updateTime_def Let_def b1 b2)
  with sc st' show ?thesis by simp
qed

text \<open>
  Claim C7, as stated, fails on its last part: the effect on a new URL does not touch the
  scrubbing flag. A state with the flag set keeps it set.
\<close>

theorem url_change_keeps_scrubbing_flag:
  "isScrubbing (urlEffect \<lparr>duration = Fin 10, scrubberTime = Fin (3 / 10), isPlaying = True,
                isScrubbing = True, volume = Fin 1, isMuted = False, currentCaption = Some ''a''\<rparr>)"
  by (simp add: urlEffect_def)

lemma js_or0_mul_zero: "js_or0 (js_mul d (Fin 0)) = Fin 0"
  by (cases d) (simp_all add: js_or0_def inf_of_sign_def)

lemma js_or0_zero_mul: "js_or0 (js_mul (Fin 0) x) = Fin 0"
  by (cases x) (simp_all add: js_or0_def inf_of_sign_def)

text \<open>
  Claim C7, amended. Whenever the media source URL changes, whatever the state before, the
  scrubber position and the displayed seconds are 0, the caption is none and the playing flag
  is cleared; the scrubbing flag and the duration are left as they were.
\<close>

theorem url_change_resets:
  "scrubberTime (urlEffect st) = Fin 0
   \<and> currentSecs (urlEffect st) = Fin 0
   \<and> currentCaption (urlEffect st) = None
   \<and> displayedCaption (urlEffect st) = None
   \<and> \<not> isPlaying (urlEffect st)
   \<and> isScrubbing (urlEffect st) = isScrubbing st
   \<and> duration (urlEffect st) = duration st"
proof -
  have pos: "scrubberTime (urlEffect st) = Fin 0" by (simp add: urlEffect_def)
  have dur: "duration (urlEffect st) = duration st" by (simp add: urlEffect_def)
  have "currentSecs (urlEffect st) = js_or0 (js_mul (duration st) (Fin 0))"
    by (simp add: currentSecs_def pos dur)
  then have secs: "currentSecs (urlEffect st) = Fin 0" by (simp add: js_or0_mul_zero)
  have cap: "currentCaption (urlEffect st) = None" by (simp add: urlEffect_def)
  then have shown: "displayedCaption (urlEffect st) = None" by (simp add: displayedCaption_def)
  have flags: "\<not> isPlaying (urlEffect st)" "isScrubbing (urlEffect st) = isScrubbing st"
    by (simp_all add: urlEffect_def)
  from pos secs cap shown flags dur show ?thesis by simp
qed

theorem url_change_resets_witness:
  "urlEffect \<lparr>duration = Fin 10, scrubberTime = Fin (3 / 10), isPlaying = True,
                isScrubbing = False, volume = Fin 1, isMuted = False, currentCaption = Some ''a''\<rparr>
   = \<lparr>duration = Fin 10, scrubberTime = Fin 0, isPlaying = False,
                isScrubbing = False, volume = Fin 1, isMuted = False, currentCaption = None\<rparr>"
  using url_change_resets [of "\<lparr>duration = Fin 10, scrubberTime = Fin (3 / 10), isPlaying = True,
                isScrubbing = False, volume = Fin 1, isMuted = False, currentCaption = Some ''a''\<rparr>"]
  by (simp add: urlEffect_def)

lemma currentSecs_duration_zero: "duration st = Fin 0 \<Longrightarrow> currentSecs st = Fin 0"
  by (simp add: currentSecs_def js_or0_zero_mul)

text \<open>
  Claim C8. With duration 0 the marker percentage \<open>(secs / duration) * 100\<close> is not 0: it
  is \<open>Infinity\<close> for a marker at 5 seconds and \<open>NaN\<close> for a marker at 0 seconds. The
  expression has no guard, while \<open>currentSecs\<close> and the scrubber position carry \<open>|| 0\<close>;
  \<open>currentSecs\<close> is 0 as the claim says.
\<close>

theorem marker_pct_unguarded:
  "markerPct (Fin 0) (TextTimecode (TStr ''0:05'') ''a'') = PosInf
   \<and> markerPct (Fin 0) (TextTimecode (TStr ''0:00'') ''a'') = NaN
   \<and> currentSecs \<lparr>duration = Fin 0, scrubberTime = Fin (1 / 2), isPlaying = False,
                  isScrubbing = False, volume = Fin 1, isMuted = False, currentCaption = None\<rparr>
     = Fin 0"
proof -
  have "markerPct (Fin 0) (TextTimecode (TStr ''0:05'') ''a'') = PosInf" by code_simp
  moreover have "markerPct (Fin 0) (TextTimecode (TStr ''0:00'') ''a'') = NaN" by code_simp
  ultimately show ?thesis by (simp add: currentSecs_duration_zero)
qed

section \<open>Properties of seeking\<close>

lemma set_currentTime_known_duration:
  assumes "js_le (Fin 0) (el_duration v)"
  shows "\<exists>p. set_currentTime (Fin x) v = Inr (v\<lparr>el_currentTime := p\<rparr>)
           \<and> js_le (Fin 0) p \<and> js_le p (el_duration v)
           \<and> (x < 0 \<longrightarrow> p = Fin 0)
           \<and> (js_gt (Fin x) (el_duration v) \<longrightarrow> p = el_duration v)
           \<and> (0 \<le> x \<and> js_le (Fin x) (el_duration v) \<longrightarrow> p = Fin x)"
proof (cases "el_duration v")
  case NaN
  with assms show ?thesis by simp
next
  case (Fin d)
  with assms have d: "0 \<le> d" by simp
  show ?thesis
  proof (cases "d < x")
    case True
    with Fin d show ?thesis by (simp add: set_currentTime_def)
  next
    case False
    with Fin d show ?thesis by (cases "x < 0") (simp_all add: set_currentTime_def)
  qed
next
  case PosInf
  then show ?thesis by (cases "x < 0") (simp_all add: set_currentTime_def)
next
  case NegInf
  with assms show ?thesis by simp
qed

text \<open>
  Claim C9, as stated, fails. With a duration of 10 and the position at 3: a first seek to
  25 ends at 10, the end of the media; the user drags the scrubber back to 3; a second seek
  to the same target 25 finds \<open>requestedTimecode\<close> unchanged, the effect does not run, and
  the position stays 3 although the target exceeds the duration. And a seek to \<open>Infinity\<close>,
  a target above every duration, or to \<open>NaN\<close> throws \<open>TypeError\<close> in the assignment and sets
  no position.
\<close>

theorem seek_target_not_reached:
  "seek (Fin 25) app0 (Some \<lparr>el_currentTime = Fin 3, el_duration = Fin 10\<rparr>)
   = (app0\<lparr>requestedTimecode := Some (Fin 25)\<rparr>,
      Inr (Some \<lparr>el_currentTime = Fin 10, el_duration = Fin 10\<rparr>))
   \<and> onScrubberChange (Fin (3 / 10)) (Some \<lparr>el_currentTime = Fin 10, el_duration = Fin 10\<rparr>)
        player0
   = (player0\<lparr>scrubberTime := Fin (3 / 10)\<rparr>,
      Inr (Some \<lparr>el_currentTime = Fin 3, el_duration = Fin 10\<rparr>))
   \<and> seek (Fin 25) (app0\<lparr>requestedTimecode := Some (Fin 25)\<rparr>)
        (Some \<lparr>el_currentTime = Fin 3, el_duration = Fin 10\<rparr>)
   = (app0\<lparr>requestedTimecode := Some (Fin 25)\<rparr>,
      Inr (Some \<lparr>el_currentTime = Fin 3, el_duration = Fin 10\<rparr>))
   \<and> js_gt (Fin 25) (Fin 10) \<and> Fin 3 \<noteq> Fin 10
   \<and> seek PosInf app0 (Some \<lparr>el_currentTime = Fin 3, el_duration = Fin 10\<rparr>)
   = (app0\<lparr>requestedTimecode := Some PosInf\<rparr>, Inl TypeError)
   \<and> js_gt PosInf (Fin 10)
   \<and> seek (timeToSecs (TStr ''bad'')) app0 (Some \<lparr>el_currentTime = Fin 3, el_duration = Fin 10\<rparr>)
   = (app0\<lparr>requestedTimecode := Some NaN\<rparr>, Inl TypeError)"
proof -
  have bad: "timeToSecs (TStr ''bad'') = NaN" by code_simp
  show ?thesis
    by (simp add: bad seek_def jumpToTimecode_def requestedTimecodeEffect_def set_currentTime_def
          onScrubberChange_def app0_def player0_def Let_def)
qed

text \<open>
  Claim C9, amended. For every finite target that differs from the timecode requested
  before, and a media element whose duration is known, \<open>seek\<close> stores the target and hands it
  unchanged to the element's \<open>currentTime\<close>, whose setter leaves the position in the interval
  \<open>[0, duration]\<close>: a negative target yields position 0, a target greater than the duration
  yields the duration, and a target inside the interval yields the target. The clamp is the
  media element's, not the player's. A target equal to the timecode requested before is not
  applied again: the element is left as it is. Without a media element only the request is
  stored.
\<close>

theorem seek_clamped_by_element:
  "(requestedTimecode st \<noteq> Some (Fin x) \<and> js_le (Fin 0) (el_duration v) \<longrightarrow>
      (\<exists>p. seek (Fin x) st (Some v)
             = (st\<lparr>requestedTimecode := Some (Fin x)\<rparr>, Inr (Some (v\<lparr>el_currentTime := p\<rparr>)))
         \<and> js_le (Fin 0) p \<and> js_le p (el_duration v)
         \<and> (x < 0 \<longrightarrow> p = Fin 0)
         \<and> (js_gt (Fin x) (el_duration v) \<longrightarrow> p = el_duration v)
         \<and> (0 \<le> x \<and> js_le (Fin x) (el_duration v) \<longrightarrow> p = Fin x)))
   \<and> (requestedTimecode st = Some t \<longrightarrow> seek t st videoRef = (st, Inr videoRef))
   \<and> seek t st None = (st\<lparr>requestedTimecode := Some t\<rparr>, Inr None)"
proof (intro conjI impI)
  assume h: "requestedTimecode st \<noteq> Some (Fin x) \<and> js_le (Fin 0) (el_duration v)"
  then have changed: "requestedTimecode (jumpToTimecode (Fin x) st) \<noteq> requestedTimecode st"
    by (auto simp: jumpToTimecode_def)
  from h set_currentTime_known_duration [of v x] obtain p where
    p: "set_currentTime (Fin x) v = Inr (v\<lparr>el_currentTime := p\<rparr>)"
       "js_le (Fin 0) p" "js_le p (el_duration v)"
       "x < 0 \<longrightarrow> p = Fin 0"
       "js_gt (Fin x) (el_duration v) \<longrightarrow> p = el_duration v"
       "0 \<le> x \<and> js_le (Fin x) (el_duration v) \<longrightarrow> p = Fin x"
    by blast
  have "seek (Fin x) st (Some v)
        = (st\<lparr>requestedTimecode := Some (Fin x)\<rparr>, Inr (Some (v\<lparr>el_currentTime := p\<rparr>)))"
    using changed p(1) by (simp add: seek_def Let_def jumpToTimecode_def requestedTimecodeEffect_def)
  with p(2-) show "\<exists>p. seek (Fin x) st (Some v)
             = (st\<lparr>requestedTimecode := Some (Fin x)\<rparr>, Inr (Some (v\<lparr>el_currentTime := p\<rparr>)))
         \<and> js_le (Fin 0) p \<and> js_le p (el_duration v)
         \<and> (x < 0 \<longrightarrow> p = Fin 0)
         \<and> (js_gt (Fin x) (el_duration v) \<longrightarrow> p = el_duration v)
         \<and> (0 \<le> x \<and> js_le (Fin x) (el_duration v) \<longrightarrow> p = Fin x)"
    by blast
next
  assume same: "requestedTimecode st = Some t"
  then have "jumpToTimecode t st = st" by (simp add: jumpToTimecode_def)
  with same show "seek t st videoRef = (st, Inr videoRef)" by (simp add: seek_def Let_def)
next
  show "seek t st None = (st\<lparr>requestedTimecode := Some t\<rparr>, Inr None)"
    by (simp add: seek_def Let_def jumpToTimecode_def requestedTimecodeEffect_def)
qed

theorem seek_clamped_by_element_witness:
  "seek (Fin (- 5)) app0 (Some \<lparr>el_currentTime = Fin 3, el_duration = Fin 10\<rparr>)
   = (app0\<lparr>requestedTimecode := Some (Fin (- 5))\<rparr>,
      Inr (Some \<lparr>el_currentTime = Fin 0, el_duration = Fin 10\<rparr>))
   \<and> seek (Fin 25) app0 (Some \<lparr>el_currentTime = Fin 3, el_duration = Fin 10\<rparr>)
   = (app0\<lparr>requestedTimecode := Some (Fin 25)\<rparr>,
      Inr (Some \<lparr>el_currentTime = Fin 10, el_duration = Fin 10\<rparr>))
   \<and> seek (Fin 7) (app0\<lparr>requestedTimecode := Some (Fin 7)\<rparr>)
        (Some \<lparr>el_currentTime = Fin 3, el_duration = Fin 10\<rparr>)
   = (app0\<lparr>requestedTimecode := Some (Fin 7)\<rparr>,
      Inr (Some \<lparr>el_currentTime = Fin 3, el_duration = Fin 10\<rparr>))"
proof -
  let ?v = "\<lparr>el_currentTime = Fin 3, el_duration = Fin 10\<rparr>"
  have a: "requestedTimecode app0 \<noteq> Some (Fin (- 5))" "requestedTimecode app0 \<noteq> Some (Fin 25)"
    by (simp_all add: app0_def)
  have d: "js_le (Fin 0) (el_duration ?v)" by simp
  from seek_clamped_by_element [of app0 "- 5" ?v] a(1) d
  have neg: "seek (Fin (- 5)) app0 (Some ?v)
   = (app0\<lparr>requestedTimecode := Some (Fin (- 5))\<rparr>,
      Inr (Some \<lparr>el_currentTime = Fin 0, el_duration = Fin 10\<rparr>))"
    by auto
  from seek_clamped_by_element [of app0 25 ?v] a(2) d
  have big: "seek (Fin 25) app0 (Some ?v)
   = (app0\<lparr>requestedTimecode := Some (Fin 25)\<rparr>,
      Inr (Some \<lparr>el_currentTime = Fin 10, el_duration = Fin 10\<rparr>))"
    by auto
  from seek_clamped_by_element [where st = "app0\<lparr>requestedTimecode := Some (Fin 7)\<rparr>"
       and t = "Fin 7" and videoRef = "Some ?v"]
  have same: "seek (Fin 7) (app0\<lparr>requestedTimecode := Some (Fin 7)\<rparr>) (Some ?v)
   = (app0\<lparr>requestedTimecode := Some (Fin 7)\<rparr>, Inr (Some ?v))"
    by simp
  from neg big same show ?thesis by simp
qed

section \<open>Properties of the annotation requests\<close>

lemma finally_visible: "visibleResult (onModeSelect_finally rid st) = visibleResult st"
  by (simp add: onModeSelect_finally_def visibleResult_def Let_def)

lemma finally_stale:
  "latestRequestRef st \<noteq> rid \<Longrightarrow> onModeSelect_finally rid st = st\<lparr>scrollTop := 0\<rparr>"
  by (simp add: onModeSelect_finally_def)

lemma resume_stale:
  assumes "latestRequestRef st \<noteq> requestId p"
  shows "(resume p result st = (st\<lparr>scrollTop := 0\<rparr>, None)
          \<or> resume p result st = (st, Some (p\<lparr>awaiting := AwaitBackoff\<rparr>)))"
  using assms
  by (cases result; cases "awaiting p")
     (auto simp: resume_def onContent_def onBackoff_def onModeSelect_apply_def finally_stale)

lemma resume_stale_state:
  assumes "latestRequestRef st \<noteq> requestId p"
  shows "fst (resume p result st) = st \<or> fst (resume p result st) = st\<lparr>scrollTop := 0\<rparr>"
  using resume_stale [OF assms, of result] by auto


lemma onModeSelect_issue:
  assumes "uploadedFile st \<noteq> None"
  shows "snd (onModeSelect now mode st) = Some \<lparr>requestId = now, attempt = 0, awaiting = AwaitContent\<rparr>"
    and "latestRequestRef (fst (onModeSelect now mode st)) = now"
    and "visibleResult (fst (onModeSelect now mode st)) = (None, None, None)"
    and "isLoading (fst (onModeSelect now mode st))"
    and "uploadedFile (fst (onModeSelect now mode st)) = uploadedFile st"
  using assms by (auto simp: onModeSelect_def Let_def visibleResult_def)

lemma stale_keeps:
  assumes "latestRequestRef st \<noteq> requestId p"
  shows "visibleResult (fst (resume p result st)) = visibleResult st"
    and "isLoading (fst (resume p result st)) = isLoading st"
    and "latestRequestRef (fst (resume p result st)) = latestRequestRef st"
    and "activeMode (fst (resume p result st)) = activeMode st"
  using resume_stale_state [OF assms, of result] by (auto simp: visibleResult_def)

lemma latest_text:
  assumes "latestRequestRef st = requestId p" "awaiting p = AwaitContent"
    and "functionCalls r = []" "truthy_str (resp_text r)"
  shows "resume p (Resolved r) st
         = (st\<lparr>textResponse := resp_text r, isLoading := False, scrollTop := 0\<rparr>, None)"
  using assms
  by (simp add: resume_def onContent_def onModeSelect_apply_def onModeSelect_finally_def Let_def)

lemma latest_timecodes:
  assumes "latestRequestRef st = requestId p" "awaiting p = AwaitContent"
    and "functionCalls r = call # rest" "fc_name call = Some n" "n \<noteq> []"
    and "startsWith n ''set_timecodes''" "fc_args call = Some tcs"
  shows "resume p (Resolved r) st
         = (st\<lparr>timecodeList := Some (map sanitize tcs), isLoading := False, scrollTop := 0\<rparr>, None)"
  using assms
  by (simp add: resume_def onContent_def onModeSelect_apply_def onModeSelect_finally_def Let_def
        truthy_str_def setTimecodes_def)

lemma latest_rejected:
  assumes "latestRequestRef st = requestId p" "awaiting p = AwaitContent"
  shows "resume p (Rejected e) st
         = (st\<lparr>apiError := Some (case e of Some m \<Rightarrow> m | None \<Rightarrow> ''An unknown error occurred.''),
               isLoading := False, scrollTop := 0\<rparr>, None)"
  using assms
  by (simp add: resume_def onContent_def onModeSelect_finally_def Let_def)

text \<open>
  What the request identifier achieves when the two calls read different values of
  \<open>Date.now()\<close>: request A is issued with identifier \<open>a\<close>, then request B with a different
  identifier \<open>b\<close> before A resolves. Whenever a suspended continuation of A resumes, at any
  retry and with any outcome \<open>rA\<close>, the visible result state (timecode list, text response,
  error message) is what it was, the loading flag stays set and B stays the latest request.
  B's result, arriving after, is applied: a text response is shown, the timecodes of a
  \<open>set_timecodes\<close> call are stored, a rejection shows its message, and in the first two
  cases loading ends.
\<close>

lemma distinct_identifiers_discard_stale:
  "uploadedFile st0 \<noteq> None \<and> b \<noteq> a \<and> requestId pA = a
     \<and> requestId pB = b \<and> awaiting pB = AwaitContent \<longrightarrow>
   (let sA = fst (onModeSelect a modeA st0);
        sB = fst (onModeSelect b modeB sA);
        sB' = fst (resume pA rA sB)
    in snd (onModeSelect a modeA st0) = Some \<lparr>requestId = a, attempt = 0, awaiting = AwaitContent\<rparr>
       \<and> snd (onModeSelect b modeB sA) = Some \<lparr>requestId = b, attempt = 0, awaiting = AwaitContent\<rparr>
       \<and> visibleResult sB = (None, None, None)
       \<and> visibleResult sB' = visibleResult sB
       \<and> isLoading sB' \<and> latestRequestRef sB' = b
       \<and> (functionCalls rB = [] \<and> truthy_str (resp_text rB) \<longrightarrow>
            visibleResult (fst (resume pB (Resolved rB) sB')) = (None, resp_text rB, None)
            \<and> \<not> isLoading (fst (resume pB (Resolved rB) sB')))
       \<and> (functionCalls rB = call # rest \<and> fc_name call = Some n \<and> n \<noteq> []
            \<and> startsWith n ''set_timecodes'' \<and> fc_args call = Some tcs \<longrightarrow>
            visibleResult (fst (resume pB (Resolved rB) sB')) = (Some (map sanitize tcs), None, None)
            \<and> \<not> isLoading (fst (resume pB (Resolved rB) sB')))
       \<and> visibleResult (fst (resume pB (Rejected e) sB'))
          = (None, None, Some (case e of Some m \<Rightarrow> m | None \<Rightarrow> ''An unknown error occurred.'')))"
proof (intro impI)
  assume h: "uploadedFile st0 \<noteq> None \<and> b \<noteq> a \<and> requestId pA = a
     \<and> requestId pB = b \<and> awaiting pB = AwaitContent"
  define sA where "sA = fst (onModeSelect a modeA st0)"
  define sB where "sB = fst (onModeSelect b modeB sA)"
  define sB' where "sB' = fst (resume pA rA sB)"
  from h have file0: "uploadedFile st0 \<noteq> None" by simp
  have fileA: "uploadedFile sA \<noteq> None"
    using onModeSelect_issue(5) [OF file0, of a modeA] file0 by (simp add: sA_def)
  have pa: "snd (onModeSelect a modeA st0) = Some \<lparr>requestId = a, attempt = 0, awaiting = AwaitContent\<rparr>"
    by (rule onModeSelect_issue(1) [OF file0])
  have pb: "snd (onModeSelect b modeB sA) = Some \<lparr>requestId = b, attempt = 0, awaiting = AwaitContent\<rparr>"
    by (rule onModeSelect_issue(1) [OF fileA])
  have latB: "latestRequestRef sB = b" and visB: "visibleResult sB = (None, None, None)"
    and loadB: "isLoading sB"
    unfolding sB_def
    by (rule onModeSelect_issue(2) [OF fileA], rule onModeSelect_issue(3) [OF fileA],
        rule onModeSelect_issue(4) [OF fileA])
  have stale: "latestRequestRef sB \<noteq> requestId pA" using h latB by simp
  have keep: "visibleResult sB' = visibleResult sB" "isLoading sB'" "latestRequestRef sB' = b"
    using stale_keeps [OF stale, of rA] loadB latB by (simp_all add: sB'_def)
  have latest: "latestRequestRef sB' = requestId pB" "awaiting pB = AwaitContent"
    using keep(3) h by simp_all
  have vis': "visibleResult sB' = (None, None, None)" using keep(1) visB by simp
  have textcase: "functionCalls rB = [] \<and> truthy_str (resp_text rB) \<longrightarrow>
            visibleResult (fst (resume pB (Resolved rB) sB')) = (None, resp_text rB, None)
            \<and> \<not> isLoading (fst (resume pB (Resolved rB) sB'))"
    using vis' by (auto simp: latest_text [OF latest] visibleResult_def)
  have tcs: "functionCalls rB = call # rest \<and> fc_name call = Some n \<and> n \<noteq> []
            \<and> startsWith n ''set_timecodes'' \<and> fc_args call = Some tcs \<longrightarrow>
            visibleResult (fst (resume pB (Resolved rB) sB')) = (Some (map sanitize tcs), None, None)
            \<and> \<not> isLoading (fst (resume pB (Resolved rB) sB'))"
    using vis' by (auto simp: latest_timecodes [OF latest] visibleResult_def)
  have rej: "visibleResult (fst (resume pB (Rejected e) sB'))
          = (None, None, Some (case e of Some m \<Rightarrow> m | None \<Rightarrow> ''An unknown error occurred.''))"
    using vis' by (simp add: latest_rejected [OF latest] visibleResult_def)
  from pa pb visB keep textcase tcs rej
  show "let sA = fst (onModeSelect a modeA st0);
        sB = fst (onModeSelect b modeB sA);
        sB' = fst (resume pA rA sB)
    in snd (onModeSelect a modeA st0) = Some \<lparr>requestId = a, attempt = 0, awaiting = AwaitContent\<rparr>
       \<and> snd (onModeSelect b modeB sA) = Some \<lparr>requestId = b, attempt = 0, awaiting = AwaitContent\<rparr>
       \<and> visibleResult sB = (None, None, None)
       \<and> visibleResult sB' = visibleResult sB
       \<and> isLoading sB' \<and> latestRequestRef sB' = b
       \<and> (functionCalls rB = [] \<and> truthy_str (resp_text rB) \<longrightarrow>
            visibleResult (fst (resume pB (Resolved rB) sB')) = (None, resp_text rB, None)
            \<and> \<not> isLoading (fst (resume pB (Resolved rB) sB')))
       \<and> (functionCalls rB = call # rest \<and> fc_name call = Some n \<and> n \<noteq> []
            \<and> startsWith n ''set_timecodes'' \<and> fc_args call = Some tcs \<longrightarrow>
            visibleResult (fst (resume pB (Resolved rB) sB')) = (Some (map sanitize tcs), None, None)
            \<and> \<not> isLoading (fst (resume pB (Resolved rB) sB')))
       \<and> visibleResult (fst (resume pB (Rejected e) sB'))
          = (None, None, Some (case e of Some m \<Rightarrow> m | None \<Rightarrow> ''An unknown error occurred.''))"
    unfolding Let_def sA_def [symmetric] sB_def [symmetric] sB'_def [symmetric] by blast
qed


lemma distinct_identifiers_discard_stale_example:
  "uploadedFile app0 \<noteq> None \<and> (1001 :: int) \<noteq> 1000
   \<and> visibleResult
        (fst (resume \<lparr>requestId = 1000, attempt = 0, awaiting = AwaitContent\<rparr>
                (Resolved \<lparr>functionCalls = [], resp_text = Some ''old''\<rparr>)
                (fst (onModeSelect 1001 ''Key moments''
                        (fst (onModeSelect 1000 ''A/V captions'' app0))))))
      = (None, None, None)
   \<and> visibleResult
        (fst (resume \<lparr>requestId = 1001, attempt = 0, awaiting = AwaitContent\<rparr>
                (Resolved \<lparr>functionCalls = [], resp_text = Some ''new''\<rparr>)
                (fst (resume \<lparr>requestId = 1000, attempt = 0, awaiting = AwaitContent\<rparr>
                        (Resolved \<lparr>functionCalls = [], resp_text = Some ''old''\<rparr>)
                        (fst (onModeSelect 1001 ''Key moments''
                                (fst (onModeSelect 1000 ''A/V captions'' app0))))))))
      = (None, Some ''new'', None)
   \<and> visibleResult
        (fst (resume \<lparr>requestId = 1001, attempt = 0, awaiting = AwaitContent\<rparr>
                (Resolved \<lparr>functionCalls =
                             [\<lparr>fc_name = Some ''set_timecodes'',
                               fc_args = Some [TextTimecode (TStr ''0:01'') ''Hi'']\<rparr>],
                           resp_text = None\<rparr>)
                (fst (resume \<lparr>requestId = 1000, attempt = 0, awaiting = AwaitContent\<rparr>
                        (Resolved \<lparr>functionCalls = [], resp_text = Some ''old''\<rparr>)
                        (fst (onModeSelect 1001 ''Key moments''
                                (fst (onModeSelect 1000 ''A/V captions'' app0))))))))
      = (Some [TextTimecode (TStr ''0:01'') ''Hi''], None, None)"
proof -
  have f: "uploadedFile app0 \<noteq> None" by (simp add: app0_def)
  have sw: "startsWith ''set_timecodes'' ''set_timecodes''" by (simp add: startsWith_def)
  from distinct_identifiers_discard_stale
         [where ?st0.0 = app0 and a = 1000 and b = 1001
            and pA = "\<lparr>requestId = 1000, attempt = 0, awaiting = AwaitContent\<rparr>"
            and pB = "\<lparr>requestId = 1001, attempt = 0, awaiting = AwaitContent\<rparr>"
            and rA = "Resolved \<lparr>functionCalls = [], resp_text = Some ''old''\<rparr>"
            and rB = "\<lparr>functionCalls =
                             [\<lparr>fc_name = Some ''set_timecodes'',
                               fc_args = Some [TextTimecode (TStr ''0:01'') ''Hi'']\<rparr>],
                           resp_text = None\<rparr>"
            and call = "\<lparr>fc_name = Some ''set_timecodes'',
                               fc_args = Some [TextTimecode (TStr ''0:01'') ''Hi'']\<rparr>"
            and rest = "[]" and n = "''set_timecodes''"
            and tcs = "[TextTimecode (TStr ''0:01'') ''Hi'']"
            and modeA = "''A/V captions''" and modeB = "''Key moments''"] f sw
  have tc: "visibleResult
        (fst (resume \<lparr>requestId = 1001, attempt = 0, awaiting = AwaitContent\<rparr>
                (Resolved \<lparr>functionCalls =
                             [\<lparr>fc_name = Some ''set_timecodes'',
                               fc_args = Some [TextTimecode (TStr ''0:01'') ''Hi'']\<rparr>],
                           resp_text = None\<rparr>)
                (fst (resume \<lparr>requestId = 1000, attempt = 0, awaiting = AwaitContent\<rparr>
                        (Resolved \<lparr>functionCalls = [], resp_text = Some ''old''\<rparr>)
                        (fst (onModeSelect 1001 ''Key moments''
                                (fst (onModeSelect 1000 ''A/V captions'' app0))))))))
      = (Some [TextTimecode (TStr ''0:01'') ''Hi''], None, None)"
    by (simp add: Let_def)
  from distinct_identifiers_discard_stale
         [where ?st0.0 = app0 and a = 1000 and b = 1001
            and pA = "\<lparr>requestId = 1000, attempt = 0, awaiting = AwaitContent\<rparr>"
            and pB = "\<lparr>requestId = 1001, attempt = 0, awaiting = AwaitContent\<rparr>"
            and rA = "Resolved \<lparr>functionCalls = [], resp_text = Some ''old''\<rparr>"
            and rB = "\<lparr>functionCalls = [], resp_text = Some ''new''\<rparr>"
            and modeA = "''A/V captions''" and modeB = "''Key moments''"] f tc
  show ?thesis by (simp add: Let_def truthy_str_def)
qed

text \<open>
  Claim C5. The claim wants a stale response never to change the visible result state. The
  identifier is \<open>Date.now()\<close>, read in each call of \<open>onModeSelect\<close>, and nothing makes two
  calls read different values. Request A is issued at time 1000, request B at the same
  time 1000 before A resolves, and A's response \<open>"old"\<close> arrives while B is in flight: the
  check \<open>latestRequestRef.current !== requestId\<close> does not tell A from B, A's text becomes the
  visible response and the loading flag is cleared. With different identifiers the response
  is discarded, as the comment in the loop says it should be.
\<close>

theorem stale_response_applied_same_identifier:
  "snd (onModeSelect 1000 ''A/V captions'' app0)
   = Some \<lparr>requestId = 1000, attempt = 0, awaiting = AwaitContent\<rparr>
   \<and> snd (onModeSelect 1000 ''Key moments'' (fst (onModeSelect 1000 ''A/V captions'' app0)))
   = Some \<lparr>requestId = 1000, attempt = 0, awaiting = AwaitContent\<rparr>
   \<and> visibleResult
        (fst (onModeSelect 1000 ''Key moments'' (fst (onModeSelect 1000 ''A/V captions'' app0))))
   = (None, None, None)
   \<and> activeMode
        (fst (onModeSelect 1000 ''Key moments'' (fst (onModeSelect 1000 ''A/V captions'' app0))))
   = Some ''Key moments''
   \<and> visibleResult
        (fst (resume \<lparr>requestId = 1000, attempt = 0, awaiting = AwaitContent\<rparr>
                (Resolved \<lparr>functionCalls = [], resp_text = Some ''old''\<rparr>)
                (fst (onModeSelect 1000 ''Key moments''
                        (fst (onModeSelect 1000 ''A/V captions'' app0))))))
   = (None, Some ''old'', None)
   \<and> \<not> isLoading
        (fst (resume \<lparr>requestId = 1000, attempt = 0, awaiting = AwaitContent\<rparr>
                (Resolved \<lparr>functionCalls = [], resp_text = Some ''old''\<rparr>)
                (fst (onModeSelect 1000 ''Key moments''
                        (fst (onModeSelect 1000 ''A/V captions'' app0))))))
   \<and> visibleResult
        (fst (resume \<lparr>requestId = 1000, attempt = 0, awaiting = AwaitContent\<rparr>
                (Resolved \<lparr>functionCalls = [], resp_text = Some ''old''\<rparr>)
                (fst (onModeSelect 1001 ''Key moments''
                        (fst (onModeSelect 1000 ''A/V captions'' app0))))))
   = (None, None, None)"
  by (simp add: onModeSelect_def resume_def onContent_def onModeSelect_apply_def
        onModeSelect_finally_def visibleResult_def truthy_str_def app0_def Let_def)

end
